theory Spec2Isabelle
  imports Complex_Main
begin

section \<open>The physicslfo~ oscillator engine\<close>

text \<open>
  A shallow embedding of \<^verbatim>\<open>src/physicslfo~.c\<close>. The C type \<^verbatim>\<open>double\<close> is
  idealised as \<^typ>\<open>real\<close>: arithmetic is exact, there is no rounding, no NaN and no
  infinity. The C types \<^verbatim>\<open>long\<close> and \<^verbatim>\<open>short\<close> are \<^typ>\<open>int\<close>; the only
  arithmetic on them is a comparison with zero and the conversion from \<^verbatim>\<open>double\<close>,
  which is written out as truncation toward zero.
\<close>

subsection \<open>C library and SDK primitives\<close>

text \<open>
  Modelled from the spec: the macro \<^verbatim>\<open>CLAMP\<close> comes from the Max SDK header
  \<^verbatim>\<open>ext.h\<close>, which is not part of the sources; the spec calls it \<^verbatim>\<open>clamp(v, lo, hi)\<close>.
  The SDK writes it as \<^verbatim>\<open>((a)>(lo) ? ((a)<(hi) ? (a) : (hi)) : (lo))\<close>.
\<close>

definition CLAMP :: "'a::linorder \<Rightarrow> 'a \<Rightarrow> 'a \<Rightarrow> 'a" where
  "CLAMP a lo hi = (if a > lo then (if a < hi then a else hi) else lo)"

text \<open>\<^verbatim>\<open>#define PI 3.14159265358979323846\<close>: the literal, not the number \<^term>\<open>pi\<close>.\<close>

definition PI :: real where
  "PI = 3.14159265358979323846"

text \<open>Truncation toward zero, as a number.\<close>

definition trunc_toward_zero :: "real \<Rightarrow> int" where
  "trunc_toward_zero d = (if 0 \<le> d then \<lfloor>d\<rfloor> else \<lceil>d\<rceil>)"

text \<open>The conversion \<^verbatim>\<open>(long)d\<close> of a double to the 64-bit \<^verbatim>\<open>long\<close>: truncation toward
  zero when the truncated value lies between \<^verbatim>\<open>LONG_MIN\<close> and \<^verbatim>\<open>LONG_MAX\<close>. When it does
  not, ISO C leaves the conversion undefined; the x86-64 conversion instruction delivers
  \<^verbatim>\<open>LONG_MIN\<close>, and that is what is written here.\<close>

definition LONG_MIN :: int where
  "LONG_MIN = - (2 ^ 63)"

definition LONG_MAX :: int where
  "LONG_MAX = 2 ^ 63 - 1"

definition trunc_long :: "real \<Rightarrow> int" where
  "trunc_long d =
     (if LONG_MIN \<le> trunc_toward_zero d \<and> trunc_toward_zero d \<le> LONG_MAX
      then trunc_toward_zero d else LONG_MIN)"

text \<open>\<^verbatim>\<open>fmax\<close>, \<^verbatim>\<open>fmod\<close> and \<^verbatim>\<open>pow\<close> of \<^verbatim>\<open>math.h\<close> on real numbers. \<^verbatim>\<open>fmod(a, b)\<close>
  is \<^verbatim>\<open>a - n * b\<close> with \<^verbatim>\<open>n\<close> the quotient truncated toward zero. \<^verbatim>\<open>pow(a, b)\<close> is
  \<^term>\<open>a powr b\<close> wherever the program calls it with a phase that is not negative: the
  base is then either positive, or zero with a positive exponent, where both give 0.\<close>

definition fmax_c :: "real \<Rightarrow> real \<Rightarrow> real" where
  "fmax_c a b = max a b"

definition fmod_c :: "real \<Rightarrow> real \<Rightarrow> real" where
  "fmod_c a b = a - of_int (trunc_toward_zero (a / b)) * b"

definition pow_c :: "real \<Rightarrow> real \<Rightarrow> real" where
  "pow_c a b = a powr b"

subsection \<open>The instance\<close>

text \<open>\<^verbatim>\<open>t_physicslfo\<close> without the opaque MSP object header \<^verbatim>\<open>ob\<close>.\<close>

record physicslfo =
  phase :: real
  sr :: real
  sr_inv :: real
  freq_float :: real
  type_float :: real
  physics_float :: real
  damping_float :: real
  freq_has_signal :: int
  type_has_signal :: int
  physics_has_signal :: int
  damping_has_signal :: int
  velocity :: real
  acceleration :: real
  energy :: real
  bounce_count :: real
  last_value :: real
  spin_phase :: real
  looping_mode :: int
  envelope_active :: int

text \<open>What \<^verbatim>\<open>post\<close> writes to the Max console, one constructor per message.\<close>

datatype post = Post_physics_info int | Post_phase_needs_looping

subsection \<open>Helper functions\<close>

definition reset_physics_state :: "physicslfo \<Rightarrow> physicslfo" where
  "reset_physics_state x =
     x\<lparr>velocity := 0, acceleration := 0, energy := 1, bounce_count := 0, spin_phase := 0\<rparr>"

definition print_physics_info :: "physicslfo \<Rightarrow> int \<Rightarrow> post list" where
  "print_physics_info x ty = [Post_physics_info ty]"

subsection \<open>Physics simulation functions\<close>

text \<open>Each function returns its sample together with the instance it leaves behind.\<close>

definition simulate_bounce :: "physicslfo \<Rightarrow> real \<Rightarrow> real \<Rightarrow> real \<Rightarrow> real \<times> physicslfo" where
  "simulate_bounce x t param damping =
     (let curve_power = 0.5 + param * 3.0;
          decay_factor = 1.0 - (damping * t * 1.5);
          bounce_height = energy x * fmax_c 0.1 decay_factor;
          height = bounce_height * (1.0 - pow_c t curve_power)
      in if height \<le> 0.0
         then (CLAMP 0.0 0.0 1.0,
               x\<lparr>energy := energy x * (1.0 - damping * 0.8),
                 bounce_count := bounce_count x + 1.0\<rparr>)
         else (CLAMP height 0.0 1.0, x))"

definition simulate_elastic :: "physicslfo \<Rightarrow> real \<Rightarrow> real \<Rightarrow> real \<Rightarrow> real \<times> physicslfo" where
  "simulate_elastic x t tension damping =
     (let osc_frequency = 3.0 + tension * 12.0;
          decay_rate = 1.0 + damping * 4.0;
          decay_envelope = exp (- decay_rate * t);
          freq_drift = fmax_c 0.8 (1.0 - (t * 0.1 * tension));
          oscillation = sin (2.0 * PI * osc_frequency * freq_drift * t);
          result = decay_envelope * oscillation
      in ((result + 1.0) * 0.5 * decay_envelope, x))"

definition simulate_bounce_spin :: "physicslfo \<Rightarrow> real \<Rightarrow> real \<Rightarrow> real \<Rightarrow> real \<times> physicslfo" where
  "simulate_bounce_spin x t param damping =
     (let curve_power = 0.3 + param * 2.5;
          decay_factor = 1.0 - (damping * t * 1.0);
          bounce_height = energy x * fmax_c 0.15 decay_factor;
          base_bounce = bounce_height * (1.0 - pow_c t curve_power);
          primary_spin_freq = 3.0 + param * 12.0;
          secondary_spin_freq = 1.5 + param * 6.0;
          primary_spin = sin (2.0 * PI * primary_spin_freq * t);
          secondary_spin = sin (2.0 * PI * secondary_spin_freq * t + PI / 3);
          complex_spin = (primary_spin * 0.7) + (secondary_spin * 0.3);
          spin_base_influence = 0.3 + param * 0.4;
          energy_boost = 1.0 + (energy x * 0.5);
          spin_influence = spin_base_influence * base_bounce * energy_boost;
          wobble_freq = 0.5 + param * 1.5;
          wobble = sin (2.0 * PI * wobble_freq * t) * 0.15 * param;
          final_height = base_bounce + (complex_spin * spin_influence) + (wobble * base_bounce)
      in if final_height \<le> 0.0
         then (fmax_c 0.0 0.0,
               x\<lparr>energy := energy x * (1.0 - damping * 0.5),
                 bounce_count := bounce_count x + 1.0\<rparr>)
         else (fmax_c 0.0 final_height, x))"

definition simulate_elastic_overshoot :: "physicslfo \<Rightarrow> real \<Rightarrow> real \<Rightarrow> real \<Rightarrow> real \<times> physicslfo" where
  "simulate_elastic_overshoot x t tension damping =
     (let freq = 1.0 + tension * 4.0;
          overshoot_amount = 0.3 + tension * 0.4;
          equilibrium = 0.6;
          approach_rate = 2.0 + damping * 3.0;
          base_approach = equilibrium * (1.0 - exp (- approach_rate * t));
          overshoot_decay = exp (- damping * t * 2.5);
          overshoot_osc = (if overshoot_decay < 0.01 then 0.0
                           else sin (2.0 * PI * freq * t) * overshoot_amount * overshoot_decay)
      in (base_approach + overshoot_osc, x))"

text \<open>The amplitude of the current bounce, \<^verbatim>\<open>bounce_amplitude\<close> in \<^verbatim>\<open>simulate_multibounce\<close>.\<close>

definition bounce_amplitude :: "real \<Rightarrow> real \<Rightarrow> real \<Rightarrow> real" where
  "bounce_amplitude t param damping =
     (let bounces_per_cycle = 2.0 + param * 6.0;
          current_bounce = trunc_long (t * bounces_per_cycle);
          energy_loss_per_bounce = 0.5 + damping * 0.4
      in pow_c energy_loss_per_bounce (of_int current_bounce))"

definition simulate_multibounce :: "physicslfo \<Rightarrow> real \<Rightarrow> real \<Rightarrow> real \<Rightarrow> real \<times> physicslfo" where
  "simulate_multibounce x t param damping =
     (let bounces_per_cycle = 2.0 + param * 6.0;
          segment_phase = fmod_c (t * bounces_per_cycle) 1.0;
          height = 4.0 * segment_phase * (1.0 - segment_phase);
          stop_threshold = 0.02
      in if bounce_amplitude t param damping < stop_threshold
         then (0.0, x)
         else (height * bounce_amplitude t param damping, x))"

definition simulate_wobble :: "physicslfo \<Rightarrow> real \<Rightarrow> real \<Rightarrow> real \<Rightarrow> real \<times> physicslfo" where
  "simulate_wobble x t tension damping =
     (let base_freq = 1.5 + tension * 2.5;
          freq_spread = tension * 0.8;
          freq1 = base_freq;
          freq2 = base_freq + freq_spread;
          equilibrium = 0.5;
          approach_rate = 1.5 + damping * 2.0;
          base_level = equilibrium * (1.0 - exp (- approach_rate * t));
          wobble_decay = exp (- damping * t * 1.2);
          osc1 = sin (2.0 * PI * freq1 * t);
          osc2 = sin (2.0 * PI * freq2 * t);
          beating = (osc1 + osc2 * 0.8) / 1.8;
          wobble_amplitude = (if wobble_decay < 0.01 then 0.0 else 0.3 * wobble_decay)
      in (base_level + (beating * wobble_amplitude), x))"

text \<open>The \<^verbatim>\<open>switch (type)\<close> of the perform routine; \<^verbatim>\<open>value\<close> starts at 0.0 and there
  is no default case.\<close>

definition simulate :: "int \<Rightarrow> physicslfo \<Rightarrow> real \<Rightarrow> real \<Rightarrow> real \<Rightarrow> real \<times> physicslfo" where
  "simulate ty x t physics_param damping =
     (if ty = 0 then simulate_bounce x t physics_param damping
      else if ty = 1 then simulate_elastic x t physics_param damping
      else if ty = 2 then simulate_bounce_spin x t physics_param damping
      else if ty = 3 then simulate_elastic_overshoot x t physics_param damping
      else if ty = 4 then simulate_multibounce x t physics_param damping
      else if ty = 5 then simulate_wobble x t physics_param damping
      else (0.0, x))"

subsection \<open>The perform routine\<close>

text \<open>\<^verbatim>\<open>while (phase < 0.0) phase += 1.0;\<close>\<close>

function neg_wrap :: "real \<Rightarrow> real" where
  "neg_wrap p = (if p < 0.0 then neg_wrap (p + 1.0) else p)"
  by pat_completeness auto
termination
proof (relation "measure (\<lambda>p. nat \<lceil>- p\<rceil>)")
  show "wf (measure (\<lambda>p::real. nat \<lceil>- p\<rceil>))" by simp
next
  fix p :: real
  assume "p < 0.0"
  then have "\<lceil>- (p + 1)\<rceil> < \<lceil>- p\<rceil>" and "0 < \<lceil>- p\<rceil>"
    by linarith+
  then show "(p + 1.0, p) \<in> measure (\<lambda>p. nat \<lceil>- p\<rceil>)"
    by simp
qed

declare neg_wrap.simps [simp del]

text \<open>The mode-specific phase update of one sample (the \<^verbatim>\<open>if (x->looping_mode)\<close>
  statement). It returns the instance, the new local \<^verbatim>\<open>phase\<close>, and whether the
  wrap branch \<^verbatim>\<open>phase >= 1.0\<close> of looping mode was taken.\<close>

definition advance_phase :: "physicslfo \<Rightarrow> real \<Rightarrow> real \<Rightarrow> real \<Rightarrow> physicslfo \<times> real \<times> bool" where
  "advance_phase x ph freq sr_inv_l =
     (if looping_mode x \<noteq> 0
      then (let ph1 = ph + freq * sr_inv_l
            in if ph1 \<ge> 1.0
               then (reset_physics_state x, neg_wrap (ph1 - 1.0), True)
               else (x, neg_wrap ph1, False))
      else if envelope_active x \<noteq> 0
      then (let ph1 = ph + freq * sr_inv_l
            in if ph1 \<ge> 1.0
               then (x\<lparr>envelope_active := 0\<rparr>, ph1, False)
               else (x, ph1, False))
      else (x, ph + freq * sr_inv_l, False))"

text \<open>What one turn of the sample loop is observed to do: whether looping mode wrapped,
  the phase handed to the simulation function, and the sample written to the outlet.\<close>

record sample_obs =
  o_wrapped :: bool
  o_phase :: real
  o_value :: real

text \<open>One turn of \<^verbatim>\<open>while (n--)\<close>. The four inlet values of this sample are
  \<open>(freq_in, type_in, physics_in, damping_in)\<close>; each is read only when its inlet has a
  signal connected.\<close>

definition perform_sample ::
  "physicslfo \<Rightarrow> real \<Rightarrow> real \<Rightarrow> real \<times> real \<times> real \<times> real \<Rightarrow> physicslfo \<times> real \<times> sample_obs" where
  "perform_sample x ph sr_inv_l ins =
     (case ins of (freq_in, type_in, physics_in, damping_in) \<Rightarrow>
      let freq0 = (if freq_has_signal x \<noteq> 0 then freq_in else freq_float x);
          type_val = (if type_has_signal x \<noteq> 0 then type_in else type_float x);
          physics_param0 = (if physics_has_signal x \<noteq> 0 then physics_in else physics_float x);
          damping0 = (if damping_has_signal x \<noteq> 0 then damping_in else damping_float x);
          freq = CLAMP freq0 0.0 1000.0;
          ty = trunc_long (CLAMP type_val 0.0 5.0);
          physics_param = CLAMP physics_param0 0.0 1.0;
          damping = CLAMP damping0 0.0 1.0
      in case advance_phase x ph freq sr_inv_l of (x1, ph1, w) \<Rightarrow>
         case simulate ty x1 ph1 physics_param damping of (v, x2) \<Rightarrow>
           (x2\<lparr>last_value := v\<rparr>, ph1, \<lparr>o_wrapped = w, o_phase = ph1, o_value = v\<rparr>))"

fun perform_loop ::
  "physicslfo \<Rightarrow> real \<Rightarrow> real \<Rightarrow> (real \<times> real \<times> real \<times> real) list
     \<Rightarrow> physicslfo \<times> real \<times> sample_obs list" where
  "perform_loop x ph sr_inv_l [] = (x, ph, [])"
| "perform_loop x ph sr_inv_l (i # ins) =
     (case perform_sample x ph sr_inv_l i of (x1, ph1, ob) \<Rightarrow>
      case perform_loop x1 ph1 sr_inv_l ins of (x2, ph2, obs) \<Rightarrow> (x2, ph2, ob # obs))"

text \<open>\<^verbatim>\<open>physicslfo_perform64\<close>: the locals \<^verbatim>\<open>phase\<close> and \<^verbatim>\<open>sr_inv\<close> are read from
  the instance before the loop and \<^verbatim>\<open>phase\<close> is stored back after it.\<close>

definition physicslfo_perform64 ::
  "physicslfo \<Rightarrow> (real \<times> real \<times> real \<times> real) list \<Rightarrow> physicslfo \<times> sample_obs list" where
  "physicslfo_perform64 x ins =
     (case perform_loop x (phase x) (sr_inv x) ins of
        (x1, ph1, obs) \<Rightarrow> (x1\<lparr>phase := ph1\<rparr>, obs))"

subsection \<open>Creation and messages\<close>

text \<open>Creation arguments are Max atoms; \<^verbatim>\<open>atom_getlong\<close> and \<^verbatim>\<open>atom_getfloat\<close> convert
  between the two numeric kinds and give 0 for anything else.\<close>

datatype atom = A_LONG int | A_FLOAT real | A_SYM

fun atom_getlong :: "atom \<Rightarrow> int" where
  "atom_getlong (A_LONG n) = n"
| "atom_getlong (A_FLOAT f) = trunc_long f"
| "atom_getlong A_SYM = 0"

fun atom_getfloat :: "atom \<Rightarrow> real" where
  "atom_getfloat (A_LONG n) = of_int n"
| "atom_getfloat (A_FLOAT f) = f"
| "atom_getfloat A_SYM = 0"

fun is_long :: "atom \<Rightarrow> bool" where
  "is_long (A_LONG n) = True"
| "is_long a = False"

fun is_number :: "atom \<Rightarrow> bool" where
  "is_number A_SYM = False"
| "is_number a = True"

text \<open>\<^verbatim>\<open>physicslfo_new\<close>; \<open>sys_sr\<close> is what \<^verbatim>\<open>sys_getsr()\<close> returns.\<close>

definition physicslfo_new :: "real \<Rightarrow> atom list \<Rightarrow> physicslfo \<times> post list" where
  "physicslfo_new sys_sr argv =
     (let x0 = \<lparr>phase = 0.0, sr = sys_sr, sr_inv = 1.0 / sys_sr,
                freq_float = 1.0, type_float = 0.0, physics_float = 0.5, damping_float = 0.1,
                freq_has_signal = 0, type_has_signal = 0,
                physics_has_signal = 0, damping_has_signal = 0,
                velocity = 0, acceleration = 0, energy = 0, bounce_count = 0,
                last_value = 0, spin_phase = 0,
                looping_mode = 0, envelope_active = 0\<rparr>;
          x1 = (reset_physics_state x0)\<lparr>looping_mode := 1, envelope_active := 0\<rparr>;
          x2 = (if length argv \<ge> 1 \<and> is_long (argv ! 0)
                then x1\<lparr>type_float := of_int (CLAMP (atom_getlong (argv ! 0)) 0 5)\<rparr> else x1);
          x3 = (if length argv \<ge> 2 \<and> is_number (argv ! 1)
                then x2\<lparr>physics_float := CLAMP (atom_getfloat (argv ! 1)) 0.0 1.0\<rparr> else x2);
          x4 = (if length argv \<ge> 3 \<and> is_number (argv ! 2)
                then x3\<lparr>damping_float := CLAMP (atom_getfloat (argv ! 2)) 0.0 1.0\<rparr> else x3)
      in (x4, print_physics_info x4 (trunc_long (type_float x4))))"

text \<open>\<^verbatim>\<open>physicslfo_dsp64\<close>; \<open>count\<close> holds the four connection counts. The sample rate
  is positive: at 0 the C division gives infinity, which the real numbers do not have.\<close>

definition physicslfo_dsp64 :: "physicslfo \<Rightarrow> int \<times> int \<times> int \<times> int \<Rightarrow> real \<Rightarrow> physicslfo" where
  "physicslfo_dsp64 x count samplerate =
     (case count of (c0, c1, c2, c3) \<Rightarrow>
        x\<lparr>sr := samplerate, sr_inv := 1.0 / samplerate,
          freq_has_signal := c0, type_has_signal := c1,
          physics_has_signal := c2, damping_has_signal := c3\<rparr>)"

text \<open>The message handlers. \<open>inlet\<close> is what \<^verbatim>\<open>proxy_getinlet\<close> returns: the inlet
  the message arrived at, 0 being the frequency and trigger inlet.\<close>

definition physicslfo_float :: "physicslfo \<Rightarrow> int \<Rightarrow> real \<Rightarrow> physicslfo \<times> post list" where
  "physicslfo_float x inlet f =
     (if inlet = 0 then (x\<lparr>freq_float := CLAMP f 0.0 1000.0\<rparr>, [])
      else if inlet = 1
      then (let new_type = trunc_long (CLAMP f 0.0 5.0);
                x1 = x\<lparr>type_float := of_int new_type\<rparr>
            in (x1, print_physics_info x1 new_type))
      else if inlet = 2 then (x\<lparr>physics_float := CLAMP f 0.0 1.0\<rparr>, [])
      else if inlet = 3 then (x\<lparr>damping_float := CLAMP f 0.0 1.0\<rparr>, [])
      else (x, []))"

definition physicslfo_int :: "physicslfo \<Rightarrow> int \<Rightarrow> int \<Rightarrow> physicslfo \<times> post list" where
  "physicslfo_int x inlet n =
     (if inlet = 0 then (x\<lparr>freq_float := CLAMP (of_int n) 0.0 1000.0\<rparr>, [])
      else if inlet = 1
      then (let new_type = CLAMP n 0 5;
                x1 = x\<lparr>type_float := of_int new_type\<rparr>
            in (x1, print_physics_info x1 new_type))
      else if inlet = 2 then (x\<lparr>physics_float := CLAMP (of_int n) 0.0 1.0\<rparr>, [])
      else if inlet = 3 then (x\<lparr>damping_float := CLAMP (of_int n) 0.0 1.0\<rparr>, [])
      else (x, []))"

definition physicslfo_bang :: "physicslfo \<Rightarrow> int \<Rightarrow> physicslfo" where
  "physicslfo_bang x inlet =
     (if inlet = 0
      then (if looping_mode x \<noteq> 0
            then reset_physics_state (x\<lparr>phase := 0.0\<rparr>)
            else (reset_physics_state (x\<lparr>phase := 0.0\<rparr>))\<lparr>envelope_active := 1\<rparr>)
      else x)"

definition physicslfo_looping :: "physicslfo \<Rightarrow> int \<Rightarrow> physicslfo" where
  "physicslfo_looping x n =
     (let x1 = x\<lparr>looping_mode := (if n \<noteq> 0 then 1 else 0)\<rparr>
      in if \<not> (looping_mode x1 \<noteq> 0) then x1\<lparr>envelope_active := 0\<rparr> else x1)"

definition physicslfo_phase :: "physicslfo \<Rightarrow> real \<Rightarrow> physicslfo \<times> post list" where
  "physicslfo_phase x f =
     (if looping_mode x \<noteq> 0
      then (reset_physics_state (x\<lparr>phase := CLAMP f 0.0 1.0\<rparr>), [])
      else (x, [Post_phase_needs_looping]))"

section \<open>Instances and observations used in the proofs\<close>

text \<open>The fields the sample loop reads but never writes, and the rate one turn of the
  loop resolves from its frequency inlet.\<close>

definition config ::
  "physicslfo \<Rightarrow> (real \<times> real \<times> real \<times> real \<times> real) \<times> (int \<times> int \<times> int \<times> int \<times> int)" where
  "config x = ((sr_inv x, freq_float x, type_float x, physics_float x, damping_float x),
               (freq_has_signal x, type_has_signal x, physics_has_signal x,
                damping_has_signal x, looping_mode x))"

definition rate_of :: "physicslfo \<Rightarrow> real \<times> real \<times> real \<times> real \<Rightarrow> real" where
  "rate_of x ins = CLAMP (if freq_has_signal x \<noteq> 0 then fst ins else freq_float x) 0 1000"

text \<open>An instance as \<^verbatim>\<open>physicslfo_new\<close> makes it at 48 kHz without creation arguments
  (type 0, shape 0.5, damping 0.1, rate 1 Hz, looping), and one created as
  \<^verbatim>\<open>[physicslfo~ 2]\<close> whose rate is then set to 0 Hz.\<close>

definition fresh :: physicslfo where
  "fresh = fst (physicslfo_new 48000 [])"

definition spin_held :: physicslfo where
  "spin_held = fst (physicslfo_float (fst (physicslfo_new 48000 [A_LONG 2])) 0 0)"

text \<open>An instance in the middle of a cycle, and the same after \<^verbatim>\<open>looping 0\<close>.\<close>

definition mid_cycle :: physicslfo where
  "mid_cycle = fresh\<lparr>phase := 1 / 2, energy := 3 / 5, bounce_count := 2\<rparr>"

definition mid_envelope :: physicslfo where
  "mid_envelope = physicslfo_looping mid_cycle 0"

text \<open>The fresh instance with its rate set to 1000 Hz; the same one sample before the end
  of a cycle; the same told by the host that the sample rate is 500 Hz; the same (at
  48 kHz) switched to envelope mode and triggered; and that one after a run of 96 samples,
  switched back to looping mode.\<close>

definition rate_1k :: physicslfo where
  "rate_1k = fst (physicslfo_float fresh 0 1000)"

definition near_wrap :: physicslfo where
  "near_wrap = rate_1k\<lparr>phase := 47 / 48\<rparr>"

definition low_rate :: physicslfo where
  "low_rate = physicslfo_dsp64 rate_1k (0, 0, 0, 0) 500"

definition env_1k :: physicslfo where
  "env_1k = physicslfo_bang (physicslfo_looping rate_1k 0) 0"

definition after_envelope :: physicslfo where
  "after_envelope =
     physicslfo_looping (fst (physicslfo_perform64 env_1k (replicate 96 (0, 0, 0, 0)))) 1"

text \<open>Scenario B: created as \<^verbatim>\<open>[physicslfo~ 4 0.5 1.0]\<close> at 48 kHz, switched to envelope
  mode and triggered once; the rate is the default 1 Hz.\<close>

definition scenario_B :: physicslfo where
  "scenario_B =
     physicslfo_bang
       (physicslfo_looping (fst (physicslfo_new 48000 [A_LONG 4, A_FLOAT 0.5, A_FLOAT 1.0])) 0) 0"

section \<open>Basic facts\<close>

lemma CLAMP_bounds: "lo \<le> hi \<Longrightarrow> lo \<le> CLAMP a lo hi \<and> CLAMP a lo hi \<le> hi"
  by (auto simp: CLAMP_def)

lemma CLAMP_unit: "0 \<le> CLAMP (a::real) 0 1" "CLAMP (a::real) 0 1 \<le> 1"
  by (simp_all add: CLAMP_def)

lemma CLAMP_rate: "0 \<le> CLAMP (a::real) 0 1000" "CLAMP (a::real) 0 1000 \<le> 1000"
  by (simp_all add: CLAMP_def)

lemma trunc_long_nonneg:
  assumes "0 \<le> d" "d < 2 ^ 63"
  shows "trunc_long d = \<lfloor>d\<rfloor>"
proof -
  have "\<lfloor>d\<rfloor> < 2 ^ 63" using assms(2) by (simp add: floor_less_iff)
  moreover have "0 \<le> \<lfloor>d\<rfloor>" using assms(1) by simp
  ultimately show ?thesis
    using assms(1) by (simp add: trunc_long_def trunc_toward_zero_def LONG_MIN_def LONG_MAX_def)
qed

lemma trunc_long_small: "trunc_long 0 = 0" "trunc_long 2 = 2" "trunc_long 4 = 4"
  by (simp_all add: trunc_long_def trunc_toward_zero_def LONG_MIN_def LONG_MAX_def)

lemma neg_wrap_nonneg: "0 \<le> p \<Longrightarrow> neg_wrap p = p"
  by (subst neg_wrap.simps) simp

lemma fresh_fields:
  "phase fresh = 0" "sr_inv fresh = 1 / 48000"
  "freq_float fresh = 1" "type_float fresh = 0"
  "physics_float fresh = 1 / 2" "damping_float fresh = 1 / 10"
  "freq_has_signal fresh = 0" "type_has_signal fresh = 0"
  "physics_has_signal fresh = 0" "damping_has_signal fresh = 0"
  "energy fresh = 1" "bounce_count fresh = 0"
  "looping_mode fresh = 1" "envelope_active fresh = 0"
  by (simp_all add: fresh_def physicslfo_new_def reset_physics_state_def
      print_physics_info_def Let_def)

lemma spin_held_fields:
  "phase spin_held = 0" "sr_inv spin_held = 1 / 48000"
  "freq_float spin_held = 0" "type_float spin_held = 2"
  "physics_float spin_held = 1 / 2" "damping_float spin_held = 1 / 10"
  "freq_has_signal spin_held = 0" "type_has_signal spin_held = 0"
  "physics_has_signal spin_held = 0" "damping_has_signal spin_held = 0"
  "energy spin_held = 1" "looping_mode spin_held = 1"
  by (simp_all add: spin_held_def physicslfo_new_def physicslfo_float_def
      reset_physics_state_def print_physics_info_def Let_def CLAMP_def)

lemma mid_cycle_fields:
  "phase mid_cycle = 1 / 2" "energy mid_cycle = 3 / 5" "bounce_count mid_cycle = 2"
  "looping_mode mid_cycle = 1" "envelope_active mid_cycle = 0"
  by (simp_all add: mid_cycle_def fresh_fields)

lemma mid_envelope_fields:
  "phase mid_envelope = 1 / 2" "energy mid_envelope = 3 / 5" "bounce_count mid_envelope = 2"
  "looping_mode mid_envelope = 0" "envelope_active mid_envelope = 0"
  by (simp_all add: mid_envelope_def physicslfo_looping_def Let_def mid_cycle_fields)

lemma rate_1k_fields:
  "phase rate_1k = 0" "sr_inv rate_1k = 1 / 48000" "freq_float rate_1k = 1000"
  "freq_has_signal rate_1k = 0" "looping_mode rate_1k = 1"
  by (simp_all add: rate_1k_def physicslfo_float_def fresh_fields CLAMP_def)

lemma near_wrap_fields:
  "phase near_wrap = 47 / 48" "sr_inv near_wrap = 1 / 48000" "freq_float near_wrap = 1000"
  "freq_has_signal near_wrap = 0" "looping_mode near_wrap = 1"
  by (simp_all add: near_wrap_def rate_1k_fields)

lemma low_rate_fields:
  "phase low_rate = 0" "sr_inv low_rate = 1 / 500" "freq_float low_rate = 1000"
  "freq_has_signal low_rate = 0" "looping_mode low_rate = 1"
  by (simp_all add: low_rate_def physicslfo_dsp64_def rate_1k_fields)

lemma env_1k_fields:
  "phase env_1k = 0" "sr_inv env_1k = 1 / 48000" "freq_float env_1k = 1000"
  "freq_has_signal env_1k = 0" "looping_mode env_1k = 0" "envelope_active env_1k = 1"
  by (simp_all add: env_1k_def physicslfo_bang_def physicslfo_looping_def Let_def
      reset_physics_state_def rate_1k_fields)

lemma scenario_B_fields:
  "phase scenario_B = 0" "sr_inv scenario_B = 1 / 48000"
  "freq_float scenario_B = 1" "type_float scenario_B = 4"
  "physics_float scenario_B = 1 / 2" "damping_float scenario_B = 1"
  "freq_has_signal scenario_B = 0" "type_has_signal scenario_B = 0"
  "physics_has_signal scenario_B = 0" "damping_has_signal scenario_B = 0"
  "looping_mode scenario_B = 0" "envelope_active scenario_B = 1"
  by (simp_all add: scenario_B_def physicslfo_new_def physicslfo_bang_def physicslfo_looping_def
      reset_physics_state_def print_physics_info_def Let_def CLAMP_def)

section \<open>The range of the output\<close>

lemma PI_third_bounds: "0 < PI / 3" "PI / 3 < 2"
  by (simp_all add: PI_def)

lemma spin_height_arith:
  fixes q s :: real
  assumes "0 < s" "0 \<le> q"
  shows "\<not> 1 + (q / 25 + 27 * s / 100) / 2 \<le> 0"
  using assms by argo

text \<open>At phase 0 a full-energy bounce-with-spin sample is the base height 1 plus the
  secondary spin term \<open>0.3 * sin (PI / 3)\<close> times a positive influence: more than 1.\<close>

lemma bounce_spin_at_zero:
  assumes "energy x = 1" "0 \<le> param"
  shows "1 < fst (simulate_bounce_spin x 0 param damping)"
proof -
  have s: "0 < sin (PI / 3)"
    using PI_third_bounds by (rule sin_gt_zero_02)
  have "0 \<le> 9 * sin (PI / 3)" using s by simp
  with assms(2) have ps: "0 \<le> param * (9 * sin (PI / 3))"
    by (rule mult_nonneg_nonneg)
  have cp: "0.3 + param * 2.5 \<noteq> 0" using assms(2) by simp
  note h = spin_height_arith [OF s ps]
  show ?thesis
    using assms(1) cp h s ps
    by (simp add: simulate_bounce_spin_def Let_def pow_c_def fmax_c_def algebra_simps)
qed

text \<open>
  Claim C1 (the code departs from it). The claim: for every reachable phase, every shape and
  damping in [0,1], every reachable internal state and every type 0-5, the sample lies in
  [0.0, 1.0]. The program: an instance created with type 2 (bounce with spin), default
  shape 0.5 and damping 0.1, whose rate is held at 0 Hz, is in looping mode at phase 0 with
  full energy; the first sample the perform routine writes to the outlet is greater
  than 1.
\<close>

theorem bounce_spin_sample_exceeds_one:
  "1 < o_value (hd (snd (physicslfo_perform64 spin_held [(0, 0, 0, 0)])))"
proof -
  have "1 < fst (simulate_bounce_spin spin_held 0 0.5 0.1)"
    by (rule bounce_spin_at_zero) (simp_all add: spin_held_fields)
  then show ?thesis
    by (simp add: physicslfo_perform64_def perform_sample_def advance_phase_def
        spin_held_fields CLAMP_def trunc_long_small neg_wrap_nonneg simulate_def Let_def
        case_prod_beta)
qed

section \<open>Multi-bounce: coming to rest\<close>

lemma multibounce_stop:
  "bounce_amplitude t param damping < 0.02 \<Longrightarrow>
   fst (simulate_multibounce x t param damping) = 0"
  by (simp add: simulate_multibounce_def Let_def)

lemma multibounce_go:
  "\<not> bounce_amplitude t param damping < 0.02 \<Longrightarrow>
   fst (simulate_multibounce x t param damping) =
     4 * fmod_c (t * (2 + param * 6)) 1 * (1 - fmod_c (t * (2 + param * 6)) 1)
       * bounce_amplitude t param damping"
  by (simp add: simulate_multibounce_def Let_def)

lemma bounce_amplitude_nonneg_phase:
  assumes "0 \<le> t * (2 + param * 6)" "t * (2 + param * 6) < 2 ^ 63"
  shows "bounce_amplitude t param damping =
           (0.5 + damping * 0.4) powr of_int \<lfloor>t * (2 + param * 6)\<rfloor>"
  using assms by (simp add: bounce_amplitude_def Let_def pow_c_def trunc_long_nonneg)

text \<open>
  Claim C4. For the type-4 multi-bounce function with fixed shape and damping (both in
  [0,1]) and every pair of phases \<open>t \<le> t'\<close>: if the amplitude
  \<open>retain ^ floor (t * bounces)\<close>, with \<open>retain = 0.5 + 0.4 * damping\<close> and
  \<open>bounces = 2 + 6 * shape\<close>, is below 0.02 at \<open>t\<close>, then the function returns exactly 0.0
  at \<open>t'\<close>. The phases are those whose bounce index the program can hold:
  \<open>t' * bounces\<close> is below \<open>2 ^ 63\<close>, the range of the \<^verbatim>\<open>long\<close> the index is cast to.
\<close>

theorem multibounce_rest_is_permanent:
  assumes "0 \<le> param" "param \<le> 1" "0 \<le> damping" "damping \<le> 1"
    and "t \<le> t'" "t' * (2.0 + param * 6.0) < 2 ^ 63"
    and "(0.5 + damping * 0.4) powr of_int \<lfloor>t * (2.0 + param * 6.0)\<rfloor> < 0.02"
  shows "fst (simulate_multibounce x t' param damping) = 0.0"
proof -
  define r :: real where "r = 0.5 + damping * 0.4"
  define b :: real where "b = 2 + param * 6"
  have r: "0 \<le> r" "r \<le> 1" unfolding r_def using assms(3,4) by simp_all
  have b: "0 < b" unfolding b_def using assms(1) by simp
  have amp: "r powr of_int \<lfloor>t * b\<rfloor> < 0.02" using assms(7) by (simp add: r_def b_def)
  have rg: "t' * b < 2 ^ 63" using assms(6) by (simp add: b_def)
  have kpos: "0 < \<lfloor>t * b\<rfloor>"
  proof (rule ccontr)
    assume "\<not> 0 < \<lfloor>t * b\<rfloor>"
    then have "real_of_int \<lfloor>t * b\<rfloor> \<le> 0" by simp
    then have "r powr 0 \<le> r powr of_int \<lfloor>t * b\<rfloor>" using r by (rule powr_mono')
    moreover have "r powr 0 = 1" using assms(3) by (simp add: r_def)
    ultimately show False using amp by simp
  qed
  then have "1 \<le> t * b" by linarith
  moreover have tb: "t * b \<le> t' * b" using assms(5) b by simp
  ultimately have nn: "0 \<le> t' * b" by linarith
  have "\<lfloor>t * b\<rfloor> \<le> \<lfloor>t' * b\<rfloor>" using tb by (rule floor_mono)
  then have "real_of_int \<lfloor>t * b\<rfloor> \<le> real_of_int \<lfloor>t' * b\<rfloor>" by simp
  then have "r powr of_int \<lfloor>t' * b\<rfloor> \<le> r powr of_int \<lfloor>t * b\<rfloor>"
    using r by (rule powr_mono')
  then have "r powr of_int \<lfloor>t' * b\<rfloor> < 0.02" using amp by simp
  moreover have "bounce_amplitude t' param damping = r powr of_int \<lfloor>t' * b\<rfloor>"
    using nn rg unfolding r_def b_def by (rule bounce_amplitude_nonneg_phase)
  ultimately have "bounce_amplitude t' param damping < 0.02" by simp
  then show ?thesis by (simp add: multibounce_stop)
qed

theorem multibounce_rest_is_permanent_witness:
  "(0::real) \<le> 1 \<and> (1::real) \<le> 1 \<and> (0::real) \<le> 0 \<and> (0::real) \<le> 1 \<and> (1::real) \<le> 2
   \<and> 2 * (2.0 + 1 * 6.0) < (2 ^ 63 :: real)
   \<and> (0.5 + 0 * 0.4) powr of_int \<lfloor>1 * (2.0 + 1 * 6.0 :: real)\<rfloor> < (0.02::real)
   \<and> fst (simulate_multibounce fresh 2 1 0) = 0.0"
proof -
  have h: "(0.5 + 0 * 0.4) powr of_int \<lfloor>1 * (2.0 + 1 * 6.0 :: real)\<rfloor> < (0.02::real)"
    by (simp add: power_divide)
  have g: "2 * (2.0 + 1 * 6.0) < (2 ^ 63 :: real)" by simp
  show ?thesis
    using h g multibounce_rest_is_permanent [of 1 0 1 2 fresh, OF _ _ _ _ _ g h] by simp
qed

text \<open>Shape 0.5 gives 5 bounces per unit phase, and the retention \<open>0.5 + 0.4 * damping\<close>
  lies between 0.5 and 0.9 for every damping in [0,1]. Whatever the damping, the 0.02
  threshold is undercut from bounce 38 on (\<open>0.9 ^ 38 < 0.02\<close>), that is from phase 7.6,
  and is not undercut before bounce 6 (\<open>0.5 ^ 5 \<ge> 0.02\<close>), that is before phase 1.2.\<close>

lemma pow38: "(0.9::real) ^ 38 < 0.02"
  by (simp add: power_divide)

lemma pow5: "(0.02::real) \<le> 0.5 ^ 5"
  by (simp add: power_divide)

lemma retention_bounds:
  fixes d :: real
  assumes "0 \<le> d" "d \<le> 1"
  shows "0.5 \<le> 0.5 + d * 0.4" "0.5 + d * 0.4 \<le> 0.9"
  using assms by simp_all

lemma fmod_c_one: "0 \<le> a \<Longrightarrow> fmod_c a 1 = frac a"
  by (simp add: fmod_c_def trunc_toward_zero_def frac_def)

lemma amplitude_shape_half:
  assumes "0 \<le> t" "t * 5 < 2 ^ 63"
  shows "bounce_amplitude t (1 / 2) d = (0.5 + d * 0.4) powr of_int \<lfloor>t * 5\<rfloor>"
  using assms bounce_amplitude_nonneg_phase [of t "1 / 2" d] by simp

lemma rest_from_phase_7_6:
  assumes "0 \<le> d" "d \<le> 1" "7.6 \<le> t" "t * 5 < 2 ^ 63"
  shows "fst (simulate_multibounce x t (1 / 2) d) = 0"
proof -
  define r :: real where "r = 0.5 + d * 0.4"
  have r: "0 \<le> r" "r \<le> 0.9" unfolding r_def using assms(1,2) by simp_all
  have "38 \<le> t * 5" using assms(3) by simp
  then have "38 \<le> \<lfloor>t * 5\<rfloor>" by linarith
  then have k: "(38::real) \<le> of_int \<lfloor>t * 5\<rfloor>" by linarith
  then have "0 \<le> real_of_int \<lfloor>t * 5\<rfloor>" by linarith
  then have "r powr of_int \<lfloor>t * 5\<rfloor> \<le> 0.9 powr of_int \<lfloor>t * 5\<rfloor>"
    using r by (rule powr_mono2)
  also have "(0.9::real) powr of_int \<lfloor>t * 5\<rfloor> \<le> 0.9 powr 38"
    using k by (rule powr_mono') simp_all
  also have "(0.9::real) powr 38 = 0.9 ^ 38" by simp
  finally have "r powr of_int \<lfloor>t * 5\<rfloor> < 0.02" using pow38 by simp
  moreover have "0 \<le> t" using assms(3) by simp
  ultimately have "bounce_amplitude t (1 / 2) d < 0.02"
    using assms(4) by (simp add: amplitude_shape_half r_def)
  then show ?thesis by (rule multibounce_stop)
qed

lemma no_rest_before_phase_1_2:
  assumes "0 \<le> d" "d \<le> 1" "0 \<le> t" "t < 1.2"
  shows "\<not> bounce_amplitude t (1 / 2) d < 0.02"
proof -
  define r :: real where "r = 0.5 + d * 0.4"
  have r: "0.5 \<le> r" "r \<le> 1" unfolding r_def using assms(1,2) by simp_all
  have rg: "t * 5 < 2 ^ 63" using assms(4) by simp
  have "0 \<le> t * 5" using assms(3) by simp
  then have k0: "0 \<le> real_of_int \<lfloor>t * 5\<rfloor>" by simp
  have "t * 5 < 6" using assms(4) by simp
  then have "\<lfloor>t * 5\<rfloor> \<le> 5" by linarith
  then have k: "of_int \<lfloor>t * 5\<rfloor> \<le> (5::real)" by linarith
  have "(0.5::real) powr 5 \<le> 0.5 powr of_int \<lfloor>t * 5\<rfloor>"
    using k by (rule powr_mono') simp_all
  also have "(0.5::real) powr of_int \<lfloor>t * 5\<rfloor> \<le> r powr of_int \<lfloor>t * 5\<rfloor>"
    using k0 _ r(1) by (rule powr_mono2) simp
  finally have "(0.5::real) powr 5 \<le> r powr of_int \<lfloor>t * 5\<rfloor>" .
  moreover have "(0.5::real) powr 5 = 0.5 ^ 5" by simp
  ultimately have "(0.02::real) \<le> r powr of_int \<lfloor>t * 5\<rfloor>" using pow5 by simp
  then show ?thesis using assms(3) rg by (simp add: amplitude_shape_half r_def)
qed

section \<open>The types that keep the range\<close>

text \<open>The bounce function clamps; the damped decay and the multi-bounce stay in [0,1] at
  every phase that is not negative (the multi-bounce as far as its bounce index fits the
  \<^verbatim>\<open>long\<close>); bounce with spin is bounded from below only.\<close>

lemma bounce_in_range:
  "0 \<le> fst (simulate_bounce x t param damping) \<and> fst (simulate_bounce x t param damping) \<le> 1"
  by (simp add: simulate_bounce_def Let_def CLAMP_unit)

lemma bounce_spin_nonneg: "0 \<le> fst (simulate_bounce_spin x t param damping)"
  by (simp add: simulate_bounce_spin_def Let_def fmax_c_def)

lemma elastic_in_range:
  assumes "0 \<le> t" "0 \<le> damping"
  shows "0 \<le> fst (simulate_elastic x t tension damping) \<and>
         fst (simulate_elastic x t tension damping) \<le> 1"
proof -
  define e where "e = exp (- (1 + damping * 4) * t)"
  define s where "s = sin (2 * PI * (3 + tension * 12) * fmax_c 0.8 (1 - t * 0.1 * tension) * t)"
  have "0 \<le> (1 + damping * 4) * t" using assms by simp
  then have "- (1 + damping * 4) * t \<le> 0"
    unfolding mult_minus_left by (simp only: neg_le_0_iff_le)
  then have "exp (- (1 + damping * 4) * t) \<le> exp 0" by (simp only: exp_le_cancel_iff)
  then have e: "0 < e" "e \<le> 1" by (simp_all add: e_def)
  have s: "- 1 \<le> s" "s \<le> 1" by (simp_all add: s_def)
  have "\<bar>e * s\<bar> \<le> 1 * 1"
    unfolding abs_mult using e s by (intro mult_mono) auto
  then have es: "- 1 \<le> e * s" "e * s \<le> 1" by (simp_all add: abs_le_iff)
  define m where "m = (e * s + 1) * 0.5"
  have m: "0 \<le> m" "m \<le> 1" using es by (simp_all add: m_def)
  have "0 \<le> m * e" using m e by simp
  moreover have "m * e \<le> 1 * 1" using m e by (intro mult_mono) auto
  moreover have "fst (simulate_elastic x t tension damping) = m * e"
    by (simp add: simulate_elastic_def Let_def m_def e_def s_def algebra_simps)
  ultimately show ?thesis by simp
qed

lemma parabola_in_range:
  fixes f :: real
  assumes "0 \<le> f" "f \<le> 1"
  shows "0 \<le> 4 * f * (1 - f)" "4 * f * (1 - f) \<le> 1"
proof -
  show "0 \<le> 4 * f * (1 - f)" using assms by simp
  have "0 \<le> (2 * f - 1)\<^sup>2" by simp
  then show "4 * f * (1 - f) \<le> 1" by (simp add: power2_eq_square algebra_simps)
qed

lemma multibounce_in_range:
  assumes "0 \<le> t" "0 \<le> param" "0 \<le> damping" "damping \<le> 1"
    and "t * (2 + param * 6) < 2 ^ 63"
  shows "0 \<le> fst (simulate_multibounce x t param damping) \<and>
         fst (simulate_multibounce x t param damping) \<le> 1"
proof (cases "bounce_amplitude t param damping < 0.02")
  case True
  then show ?thesis by (simp add: multibounce_stop)
next
  case False
  define f where "f = fmod_c (t * (2 + param * 6)) 1"
  define a where "a = bounce_amplitude t param damping"
  have nn: "0 \<le> t * (2 + param * 6)" using assms(1,2) by simp
  then have "f = frac (t * (2 + param * 6))" unfolding f_def by (rule fmod_c_one)
  then have f: "0 \<le> f" "f \<le> 1" using frac_lt_1 [of "t * (2 + param * 6)"] by simp_all
  have "a = (0.5 + damping * 0.4) powr of_int \<lfloor>t * (2 + param * 6)\<rfloor>"
    unfolding a_def using nn assms(5) by (rule bounce_amplitude_nonneg_phase)
  moreover have "(0.5 + damping * 0.4) powr of_int \<lfloor>t * (2 + param * 6)\<rfloor> \<le> 1"
    using assms(3,4) nn by (intro powr_le1) simp_all
  ultimately have a: "0 \<le> a" "a \<le> 1" by simp_all
  note p = parabola_in_range [OF f]
  have "0 \<le> 4 * f * (1 - f) * a" using p(1) a(1) by (rule mult_nonneg_nonneg)
  moreover have "4 * f * (1 - f) * a \<le> 1 * 1" using p a by (intro mult_mono) auto
  moreover have "fst (simulate_multibounce x t param damping) = 4 * f * (1 - f) * a"
    unfolding f_def a_def using False by (rule multibounce_go)
  ultimately show ?thesis by simp
qed

section \<open>Energy\<close>

lemma energy_scaled:
  fixes e d c :: real
  assumes "0 \<le> d" "d \<le> 1" "0 \<le> e" "0 \<le> c" "c \<le> 1"
  shows "0 \<le> e * (1 - d * c)" "e * (1 - d * c) \<le> e"
proof -
  have "d * c \<le> 1 * 1" using assms by (intro mult_mono) auto
  then have f: "0 \<le> 1 - d * c" by simp
  have g: "1 - d * c \<le> 1" using assms by simp
  show "0 \<le> e * (1 - d * c)" using assms(3) f by (rule mult_nonneg_nonneg)
  show "e * (1 - d * c) \<le> e" using g assms(3) by (rule mult_left_le)
qed

text \<open>A simulation call changes at most \<open>energy\<close> and \<open>bounce_count\<close>.\<close>

lemma simulate_frame:
  "snd (simulate ty x t param damping) =
     x\<lparr>energy := energy (snd (simulate ty x t param damping)),
       bounce_count := bounce_count (snd (simulate ty x t param damping))\<rparr>"
  by (simp add: simulate_def simulate_bounce_def simulate_elastic_def simulate_bounce_spin_def
      simulate_elastic_overshoot_def simulate_multibounce_def simulate_wobble_def Let_def)

lemma simulate_energy_cases:
  "energy (snd (simulate ty x t param damping)) = energy x \<or>
   energy (snd (simulate ty x t param damping)) = energy x * (1 - damping * 0.8) \<or>
   energy (snd (simulate ty x t param damping)) = energy x * (1 - damping * 0.5)"
  by (simp add: simulate_def simulate_bounce_def simulate_elastic_def simulate_bounce_spin_def
      simulate_elastic_overshoot_def simulate_multibounce_def simulate_wobble_def Let_def)

lemma simulate_energy:
  assumes "0 \<le> damping" "damping \<le> 1" "0 \<le> energy x"
  shows "0 \<le> energy (snd (simulate ty x t param damping))"
    and "energy (snd (simulate ty x t param damping)) \<le> energy x"
proof -
  have a: "0 \<le> energy x * (1 - damping * 0.8)" "energy x * (1 - damping * 0.8) \<le> energy x"
    using energy_scaled [OF assms, of "0.8"] by simp_all
  have b: "0 \<le> energy x * (1 - damping * 0.5)" "energy x * (1 - damping * 0.5) \<le> energy x"
    using energy_scaled [OF assms, of "0.5"] by simp_all
  show "0 \<le> energy (snd (simulate ty x t param damping))"
    using simulate_energy_cases [of ty x t param damping] a b assms(3) by auto
  show "energy (snd (simulate ty x t param damping)) \<le> energy x"
    using simulate_energy_cases [of ty x t param damping] a b by auto
qed

lemma advance_phase_energy:
  assumes "0 \<le> energy x" "energy x \<le> 1"
  shows "0 \<le> energy (fst (advance_phase x ph freq srl)) \<and>
         energy (fst (advance_phase x ph freq srl)) \<le> 1"
  using assms by (simp add: advance_phase_def reset_physics_state_def Let_def)

lemma perform_sample_energy:
  assumes "0 \<le> energy x" "energy x \<le> 1"
  shows "0 \<le> energy (fst (perform_sample x ph srl ins)) \<and>
         energy (fst (perform_sample x ph srl ins)) \<le> 1"
proof -
  obtain fi ti pi di where ins: "ins = (fi, ti, pi, di)" by (cases ins) auto
  define d where "d = CLAMP (if damping_has_signal x \<noteq> 0 then di else damping_float x) 0 1"
  define x1 where "x1 = fst (advance_phase x ph
      (CLAMP (if freq_has_signal x \<noteq> 0 then fi else freq_float x) 0 1000) srl)"
  have d: "0 \<le> d" "d \<le> 1" by (simp_all add: d_def CLAMP_unit)
  have x1: "0 \<le> energy x1" "energy x1 \<le> 1"
    unfolding x1_def using advance_phase_energy [OF assms] by simp_all
  have "\<exists>ty t p. fst (perform_sample x ph srl ins) =
          (snd (simulate ty x1 t p d))\<lparr>last_value := fst (simulate ty x1 t p d)\<rparr>"
    by (auto simp add: perform_sample_def ins Let_def case_prod_beta d_def x1_def)
  then obtain ty t p where
    "fst (perform_sample x ph srl ins) =
       (snd (simulate ty x1 t p d))\<lparr>last_value := fst (simulate ty x1 t p d)\<rparr>"
    by blast
  then have e: "energy (fst (perform_sample x ph srl ins)) = energy (snd (simulate ty x1 t p d))"
    by simp
  show ?thesis
    using simulate_energy [OF d x1(1), of ty t p] x1(2) unfolding e by linarith
qed

text \<open>
  Claim C5. Energy stays in [0,1] under every operation: with damping in [0,1] and energy
  in [0,1], a call of the selected simulation function (any type) leaves energy unchanged
  or multiplies it by the ground-contact factor \<open>1 - 0.8 * damping\<close> (bounce) or
  \<open>1 - 0.5 * damping\<close> (bounce with spin), so that it is at least 0 and at most the energy
  before; the reset operation sets it to exactly 1.0; and one whole turn of the sample
  loop, for any inputs, leaves it in [0,1].
\<close>

theorem energy_stays_in_unit_interval:
  assumes "0 \<le> damping" "damping \<le> 1" "0 \<le> energy x" "energy x \<le> 1"
  shows "0 \<le> energy (snd (simulate ty x t param damping)) \<and>
         energy (snd (simulate ty x t param damping)) \<le> energy x \<and>
         energy (snd (simulate ty x t param damping)) \<le> 1 \<and>
         (energy (snd (simulate ty x t param damping)) = energy x \<or>
          energy (snd (simulate ty x t param damping)) = energy x * (1 - damping * 0.8) \<or>
          energy (snd (simulate ty x t param damping)) = energy x * (1 - damping * 0.5)) \<and>
         energy (reset_physics_state x) = 1.0 \<and>
         0 \<le> energy (fst (perform_sample x ph srl ins)) \<and>
         energy (fst (perform_sample x ph srl ins)) \<le> 1"
proof -
  note s = simulate_energy [OF assms(1,2,3), of ty t param]
  have "energy (snd (simulate ty x t param damping)) \<le> 1" using s(2) assms(4) by linarith
  moreover have "energy (reset_physics_state x) = 1.0" by (simp add: reset_physics_state_def)
  ultimately show ?thesis
    using s simulate_energy_cases [of ty x t param damping]
      perform_sample_energy [OF assms(3,4), of ph srl ins]
    by blast
qed

text \<open>A state at the ground: type 0 at phase 1 has height 0, so the contact branch runs.\<close>

theorem energy_stays_in_unit_interval_witness:
  "(0::real) \<le> 1 / 2 \<and> (1 / 2 :: real) \<le> 1 \<and> 0 \<le> energy fresh \<and> energy fresh \<le> 1 \<and>
   energy (snd (simulate 0 fresh 1 (1 / 2) (1 / 2))) = 3 / 5 \<and>
   energy (reset_physics_state fresh) = 1 \<and>
   0 \<le> energy (fst (perform_sample fresh 0 (1 / 48000) (0, 0, 0, 0))) \<and>
   energy (fst (perform_sample fresh 0 (1 / 48000) (0, 0, 0, 0))) \<le> 1"
proof -
  have e: "energy (snd (simulate 0 fresh 1 (1 / 2) (1 / 2))) = 3 / 5"
    by (simp add: simulate_def simulate_bounce_def Let_def pow_c_def fmax_c_def fresh_fields)
  show ?thesis
    using e energy_stays_in_unit_interval [of "1 / 2" fresh 0 1 "1 / 2" 0 "1 / 48000" "(0, 0, 0, 0)"]
    by (simp add: fresh_fields)
qed

section \<open>Messages\<close>

text \<open>
  Claim C6. A phase-set message received in envelope mode (\<open>looping_mode\<close> false) changes
  nothing: the instance afterwards is the instance before, in every field, and the only
  effect is the diagnostic; the requested value is discarded.
\<close>

theorem phase_message_rejected_in_envelope_mode:
  assumes "looping_mode x = 0"
  shows "physicslfo_phase x f = (x, [Post_phase_needs_looping])"
  using assms by (simp add: physicslfo_phase_def)

theorem phase_message_rejected_in_envelope_mode_witness:
  "looping_mode mid_envelope = 0 \<and>
   physicslfo_phase mid_envelope (1 / 4) = (mid_envelope, [Post_phase_needs_looping]) \<and>
   phase (fst (physicslfo_phase mid_envelope (1 / 4))) = 1 / 2"
  using phase_message_rejected_in_envelope_mode [of mid_envelope "1 / 4"]
  by (simp add: mid_envelope_fields)

text \<open>
  Claim C8. The looping message changes the mode flags only: \<open>looping_mode\<close> becomes 1 or 0,
  and switching off also sets \<open>envelope_active\<close> to 0; switching on leaves
  \<open>envelope_active\<close> as it was. Phase, energy, bounce count, spin phase, velocity,
  acceleration and the held scalars are unchanged in both directions: no reset happens.
\<close>

theorem looping_message_frame:
  "physicslfo_looping x n =
     x\<lparr>looping_mode := (if n \<noteq> 0 then 1 else 0),
       envelope_active := (if n \<noteq> 0 then envelope_active x else 0)\<rparr> \<and>
   phase (physicslfo_looping x n) = phase x \<and>
   energy (physicslfo_looping x n) = energy x \<and>
   bounce_count (physicslfo_looping x n) = bounce_count x \<and>
   spin_phase (physicslfo_looping x n) = spin_phase x \<and>
   velocity (physicslfo_looping x n) = velocity x \<and>
   acceleration (physicslfo_looping x n) = acceleration x \<and>
   freq_float (physicslfo_looping x n) = freq_float x \<and>
   type_float (physicslfo_looping x n) = type_float x \<and>
   physics_float (physicslfo_looping x n) = physics_float x \<and>
   damping_float (physicslfo_looping x n) = damping_float x"
  by (simp add: physicslfo_looping_def Let_def)

theorem looping_message_frame_witness:
  "physicslfo_looping mid_cycle 0 = mid_cycle\<lparr>looping_mode := 0, envelope_active := 0\<rparr> \<and>
   physicslfo_looping mid_envelope 1 = mid_envelope\<lparr>looping_mode := 1\<rparr> \<and>
   phase (physicslfo_looping mid_cycle 0) = 1 / 2 \<and>
   energy (physicslfo_looping mid_cycle 0) = 3 / 5 \<and>
   bounce_count (physicslfo_looping mid_envelope 1) = 2 \<and>
   envelope_active env_1k = 1 \<and> envelope_active (physicslfo_looping env_1k 0) = 0 \<and>
   envelope_active (physicslfo_looping env_1k 1) = 1"
  using looping_message_frame [of mid_cycle 0] looping_message_frame [of mid_envelope 1]
    looping_message_frame [of env_1k 0] looping_message_frame [of env_1k 1]
  by (simp add: mid_cycle_fields mid_envelope_fields env_1k_fields)

text \<open>
  Claim C10. In looping mode a bang trigger (a bang at the first inlet, the frequency and
  trigger inlet) and a phase-set message with value 0.0 leave the same instance: both set
  phase to 0.0 and run the same reset.
\<close>

theorem bang_is_phase_zero_in_looping_mode:
  assumes "looping_mode x \<noteq> 0"
  shows "physicslfo_bang x 0 = fst (physicslfo_phase x 0.0)"
  using assms by (simp add: physicslfo_bang_def physicslfo_phase_def CLAMP_def)

theorem bang_is_phase_zero_in_looping_mode_witness:
  "looping_mode mid_cycle \<noteq> 0 \<and>
   physicslfo_bang mid_cycle 0 = fst (physicslfo_phase mid_cycle 0.0) \<and>
   phase (physicslfo_bang mid_cycle 0) = 0 \<and> energy (physicslfo_bang mid_cycle 0) = 1 \<and>
   bounce_count (physicslfo_bang mid_cycle 0) = 0"
proof -
  have l: "looping_mode mid_cycle \<noteq> 0" by (simp add: mid_cycle_fields)
  note eq = bang_is_phase_zero_in_looping_mode [OF l]
  have "phase (physicslfo_bang mid_cycle 0) = 0 \<and> energy (physicslfo_bang mid_cycle 0) = 1 \<and>
        bounce_count (physicslfo_bang mid_cycle 0) = 0"
    by (simp add: physicslfo_bang_def reset_physics_state_def mid_cycle_fields)
  with l eq show ?thesis by blast
qed

section \<open>The sample loop\<close>

lemma simulate_config: "config (snd (simulate ty x t param damping)) = config x"
  by (subst simulate_frame) (simp add: config_def)

lemma advance_phase_config: "config (fst (advance_phase x ph freq srl)) = config x"
  by (simp add: advance_phase_def config_def reset_physics_state_def Let_def)

text \<open>One turn of the loop, taken apart.\<close>

lemma perform_sample_parts:
  "\<exists>ty p d.
     perform_sample x ph srl ins =
       (let a = advance_phase x ph (rate_of x ins) srl;
            s = simulate ty (fst a) (fst (snd a)) p d
        in ((snd s)\<lparr>last_value := fst s\<rparr>, fst (snd a),
            \<lparr>o_wrapped = snd (snd a), o_phase = fst (snd a), o_value = fst s\<rparr>))"
  by (cases ins) (auto simp add: perform_sample_def rate_of_def Let_def case_prod_beta)

lemma perform_sample_config: "config (fst (perform_sample x ph srl ins)) = config x"
proof -
  obtain ty p d where
    "perform_sample x ph srl ins =
       (let a = advance_phase x ph (rate_of x ins) srl;
            s = simulate ty (fst a) (fst (snd a)) p d
        in ((snd s)\<lparr>last_value := fst s\<rparr>, fst (snd a),
            \<lparr>o_wrapped = snd (snd a), o_phase = fst (snd a), o_value = fst s\<rparr>))"
    using perform_sample_parts by blast
  then have "config (fst (perform_sample x ph srl ins)) =
             config (snd (simulate ty (fst (advance_phase x ph (rate_of x ins) srl))
                      (fst (snd (advance_phase x ph (rate_of x ins) srl))) p d))"
    by (simp add: Let_def config_def)
  then show ?thesis by (simp add: simulate_config advance_phase_config)
qed

lemma perform_sample_obs:
  "fst (snd (perform_sample x ph srl ins)) = fst (snd (advance_phase x ph (rate_of x ins) srl))"
  "o_phase (snd (snd (perform_sample x ph srl ins))) =
     fst (snd (advance_phase x ph (rate_of x ins) srl))"
  "o_wrapped (snd (snd (perform_sample x ph srl ins))) =
     snd (snd (advance_phase x ph (rate_of x ins) srl))"
  using perform_sample_parts [of x ph srl ins] by (auto simp add: Let_def)

lemma rate_of_bounds: "0 \<le> rate_of x ins" "rate_of x ins \<le> 1000"
  by (simp_all add: rate_of_def CLAMP_rate)

lemma increment_bounds:
  assumes "0 \<le> srl" "srl \<le> 1 / 1000"
  shows "0 \<le> rate_of x ins * srl" "rate_of x ins * srl \<le> 1"
proof -
  show "0 \<le> rate_of x ins * srl" using rate_of_bounds(1) assms(1) by simp
  have "rate_of x ins * srl \<le> 1000 * (1 / 1000)"
    using rate_of_bounds assms by (intro mult_mono) simp_all
  then show "rate_of x ins * srl \<le> 1" by simp
qed

lemma advance_phase_looping_range:
  assumes "looping_mode x \<noteq> 0" "0 \<le> ph" "ph < 1" "0 \<le> inc" "inc \<le> 1"
    and "inc = freq * srl"
  shows "0 \<le> fst (snd (advance_phase x ph freq srl)) \<and> fst (snd (advance_phase x ph freq srl)) < 1"
  using assms by (simp add: advance_phase_def Let_def neg_wrap_nonneg)

lemma advance_phase_envelope:
  assumes "looping_mode x = 0"
  shows "fst (snd (advance_phase x ph freq srl)) = ph + freq * srl"
    and "\<not> snd (snd (advance_phase x ph freq srl))"
  using assms by (simp_all add: advance_phase_def Let_def)

lemma config_looping: "config x' = config x \<Longrightarrow> looping_mode x' = looping_mode x"
  by (simp add: config_def)

lemma config_sr_inv: "config x' = config x \<Longrightarrow> sr_inv x' = sr_inv x"
  by (simp add: config_def)

lemma perform_loop_config: "config (fst (perform_loop x ph srl ins)) = config x"
proof (induction ins arbitrary: x ph)
  case Nil
  show ?case by simp
next
  case (Cons i ins)
  have "config (fst (perform_loop (fst (perform_sample x ph srl i))
                 (fst (snd (perform_sample x ph srl i))) srl ins))
        = config (fst (perform_sample x ph srl i))"
    by (rule Cons.IH)
  then show ?case by (simp add: case_prod_beta perform_sample_config)
qed

lemma perform_loop_looping_range:
  assumes "looping_mode x \<noteq> 0" "0 \<le> srl" "srl \<le> 1 / 1000" "0 \<le> ph" "ph < 1"
  shows "0 \<le> fst (snd (perform_loop x ph srl ins)) \<and> fst (snd (perform_loop x ph srl ins)) < 1 \<and>
         (\<forall>ob \<in> set (snd (snd (perform_loop x ph srl ins))). 0 \<le> o_phase ob \<and> o_phase ob < 1)"
  using assms
proof (induction ins arbitrary: x ph)
  case Nil
  then show ?case by simp
next
  case (Cons i ins)
  define x1 where "x1 = fst (perform_sample x ph srl i)"
  define ph1 where "ph1 = fst (snd (perform_sample x ph srl i))"
  define ob where "ob = snd (snd (perform_sample x ph srl i))"
  have e: "ph1 = fst (snd (advance_phase x ph (rate_of x i) srl))"
    by (simp add: ph1_def perform_sample_obs)
  have r: "0 \<le> ph1 \<and> ph1 < 1"
    unfolding e
    using Cons.prems(1,4,5) increment_bounds [OF Cons.prems(2,3), of x i] refl
    by (rule advance_phase_looping_range)
  have o: "o_phase ob = ph1" by (simp add: ob_def ph1_def perform_sample_obs)
  have "config x1 = config x" unfolding x1_def by (rule perform_sample_config)
  then have "looping_mode x1 = looping_mode x" by (rule config_looping)
  then have l: "looping_mode x1 \<noteq> 0" using Cons.prems(1) by simp
  note ih = Cons.IH [OF l Cons.prems(2,3), of ph1]
  have eq: "perform_loop x ph srl (i # ins) =
          (fst (perform_loop x1 ph1 srl ins), fst (snd (perform_loop x1 ph1 srl ins)),
           ob # snd (snd (perform_loop x1 ph1 srl ins)))"
    by (simp add: case_prod_beta x1_def ph1_def ob_def)
  show ?case unfolding eq using ih r o by simp
qed

lemma perform_loop_envelope:
  assumes "looping_mode x = 0" "0 \<le> srl"
  shows "sorted (ph # map o_phase (snd (snd (perform_loop x ph srl ins)))) \<and>
         fst (snd (perform_loop x ph srl ins)) =
           last (ph # map o_phase (snd (snd (perform_loop x ph srl ins)))) \<and>
         (\<forall>ob \<in> set (snd (snd (perform_loop x ph srl ins))). \<not> o_wrapped ob)"
  using assms
proof (induction ins arbitrary: x ph)
  case Nil
  then show ?case by simp
next
  case (Cons i ins)
  define x1 where "x1 = fst (perform_sample x ph srl i)"
  define ph1 where "ph1 = fst (snd (perform_sample x ph srl i))"
  define ob where "ob = snd (snd (perform_sample x ph srl i))"
  have p: "ph1 = ph + rate_of x i * srl"
    using advance_phase_envelope(1) [OF Cons.prems(1)] by (simp add: ph1_def perform_sample_obs)
  have "0 \<le> rate_of x i * srl" using rate_of_bounds(1) Cons.prems(2) by simp
  then have r: "ph \<le> ph1" using p by simp
  have o: "o_phase ob = ph1" by (simp add: ob_def ph1_def perform_sample_obs)
  have w: "\<not> o_wrapped ob"
    using advance_phase_envelope(2) [OF Cons.prems(1)] by (simp add: ob_def perform_sample_obs)
  have "config x1 = config x" unfolding x1_def by (rule perform_sample_config)
  then have "looping_mode x1 = looping_mode x" by (rule config_looping)
  then have l: "looping_mode x1 = 0" using Cons.prems(1) by simp
  note ih = Cons.IH [OF l Cons.prems(2), of ph1]
  have eq: "perform_loop x ph srl (i # ins) =
          (fst (perform_loop x1 ph1 srl ins), fst (snd (perform_loop x1 ph1 srl ins)),
           ob # snd (snd (perform_loop x1 ph1 srl ins)))"
    by (simp add: case_prod_beta x1_def ph1_def ob_def)
  show ?case unfolding eq using ih r o w by fastforce
qed

lemma config_fields:
  assumes "config x' = config x"
  shows "sr_inv x' = sr_inv x" "freq_float x' = freq_float x" "type_float x' = type_float x"
    "physics_float x' = physics_float x" "damping_float x' = damping_float x"
    "freq_has_signal x' = freq_has_signal x" "type_has_signal x' = type_has_signal x"
    "physics_has_signal x' = physics_has_signal x"
    "damping_has_signal x' = damping_has_signal x" "looping_mode x' = looping_mode x"
  using assms by (simp_all add: config_def)

lemma perform_loop_append:
  "perform_loop x ph srl (a @ b) =
     (fst (perform_loop (fst (perform_loop x ph srl a)) (fst (snd (perform_loop x ph srl a))) srl b),
      fst (snd (perform_loop (fst (perform_loop x ph srl a)) (fst (snd (perform_loop x ph srl a))) srl b)),
      snd (snd (perform_loop x ph srl a)) @
      snd (snd (perform_loop (fst (perform_loop x ph srl a)) (fst (snd (perform_loop x ph srl a))) srl b)))"
  by (induction a arbitrary: x ph) (simp_all add: case_prod_beta)

lemma rate_of_held: "freq_has_signal x = 0 \<Longrightarrow> rate_of x i = CLAMP (freq_float x) 0 1000"
  by (simp add: rate_of_def)

lemma advance_phase_no_wrap:
  assumes "looping_mode x \<noteq> 0" "0 \<le> ph + freq * srl" "ph + freq * srl < 1"
  shows "advance_phase x ph freq srl = (x, ph + freq * srl, False)"
  using assms by (simp add: advance_phase_def Let_def neg_wrap_nonneg)

text \<open>A run at a held rate: the phase after \<open>n\<close> samples, in envelope mode and, as long
  as it stays below 1, in looping mode.\<close>

lemma held_rate_run:
  assumes "freq_has_signal x = 0" "freq_float x = f" "0 \<le> srl" "0 \<le> ph"
    and "looping_mode x \<noteq> 0 \<longrightarrow> ph + real (length ins) * (CLAMP f 0 1000 * srl) < 1"
  shows "fst (snd (perform_loop x ph srl ins)) = ph + real (length ins) * (CLAMP f 0 1000 * srl) \<and>
         (\<forall>ob \<in> set (snd (snd (perform_loop x ph srl ins))). \<not> o_wrapped ob)"
  using assms
proof (induction ins arbitrary: x ph)
  case Nil
  then show ?case by simp
next
  case (Cons i ins)
  define inc where "inc = CLAMP f 0 1000 * srl"
  define x1 where "x1 = fst (perform_sample x ph srl i)"
  define ph1 where "ph1 = fst (snd (perform_sample x ph srl i))"
  define ob where "ob = snd (snd (perform_sample x ph srl i))"
  have inc: "0 \<le> inc" unfolding inc_def using CLAMP_rate(1) Cons.prems(3) by simp
  have rt: "rate_of x i * srl = inc"
    using Cons.prems(1,2) by (simp add: rate_of_held inc_def)
  have len: "real (length (i # ins)) * inc = inc + real (length ins) * inc"
    by (simp add: algebra_simps)
  have a: "fst (snd (advance_phase x ph (rate_of x i) srl)) = ph + inc \<and>
           \<not> snd (snd (advance_phase x ph (rate_of x i) srl))"
  proof (cases "looping_mode x = 0")
    case True
    then show ?thesis using advance_phase_envelope [OF True, of ph "rate_of x i" srl] rt by simp
  next
    case False
    have "0 \<le> real (length ins) * inc" using inc by simp
    then have "ph + inc < 1" using Cons.prems(5) False len unfolding inc_def by simp
    moreover have "0 \<le> ph + inc" using Cons.prems(4) inc by simp
    ultimately show ?thesis
      using advance_phase_no_wrap [OF False, of ph "rate_of x i" srl] rt by simp
  qed
  have p: "ph1 = ph + inc" using a by (simp add: ph1_def perform_sample_obs)
  have w: "\<not> o_wrapped ob" using a by (simp add: ob_def perform_sample_obs)
  have c: "config x1 = config x" unfolding x1_def by (rule perform_sample_config)
  have h1: "freq_has_signal x1 = 0" using config_fields(6) [OF c] Cons.prems(1) by simp
  have h2: "freq_float x1 = f" using config_fields(2) [OF c] Cons.prems(2) by simp
  have h4: "0 \<le> ph1" using p Cons.prems(4) inc by simp
  have h5: "looping_mode x1 \<noteq> 0 \<longrightarrow> ph1 + real (length ins) * (CLAMP f 0 1000 * srl) < 1"
    using Cons.prems(5) config_fields(10) [OF c] p len unfolding inc_def
    by (simp add: add.assoc)
  note ih = Cons.IH [OF h1 h2 Cons.prems(3) h4 h5]
  have eq: "perform_loop x ph srl (i # ins) =
          (fst (perform_loop x1 ph1 srl ins), fst (snd (perform_loop x1 ph1 srl ins)),
           ob # snd (snd (perform_loop x1 ph1 srl ins)))"
    by (simp add: case_prod_beta x1_def ph1_def ob_def)
  show ?case unfolding eq using ih p w len unfolding inc_def by (simp add: add.assoc)
qed

text \<open>Blocks compose: a block of samples may be split anywhere.\<close>

lemma simulate_phase_field:
  "simulate ty (x\<lparr>phase := q\<rparr>) t p d =
     (fst (simulate ty x t p d), (snd (simulate ty x t p d))\<lparr>phase := q\<rparr>)"
  by (simp add: simulate_def simulate_bounce_def simulate_elastic_def simulate_bounce_spin_def
        simulate_elastic_overshoot_def simulate_multibounce_def simulate_wobble_def Let_def)

lemma advance_phase_phase_field:
  "advance_phase (x\<lparr>phase := q\<rparr>) ph f srl =
     ((fst (advance_phase x ph f srl))\<lparr>phase := q\<rparr>, snd (advance_phase x ph f srl))"
  by (simp add: advance_phase_def reset_physics_state_def Let_def)

lemma perform_sample_phase_field:
  "perform_sample (x\<lparr>phase := q\<rparr>) ph srl i =
     ((fst (perform_sample x ph srl i))\<lparr>phase := q\<rparr>, snd (perform_sample x ph srl i))"
  by (cases i)
     (simp add: perform_sample_def Let_def case_prod_beta advance_phase_phase_field
        simulate_phase_field)

lemma perform_loop_phase_field:
  "perform_loop (x\<lparr>phase := q\<rparr>) ph srl ins =
     ((fst (perform_loop x ph srl ins))\<lparr>phase := q\<rparr>, snd (perform_loop x ph srl ins))"
proof (induction ins arbitrary: x ph)
  case Nil
  show ?case by simp
next
  case (Cons i ins)
  show ?case
    by (simp add: perform_sample_phase_field case_prod_beta Cons.IH)
qed

lemma perform64_append:
  "physicslfo_perform64 x (a @ b) =
     (fst (physicslfo_perform64 (fst (physicslfo_perform64 x a)) b),
      snd (physicslfo_perform64 x a) @ snd (physicslfo_perform64 (fst (physicslfo_perform64 x a)) b))"
proof -
  define r where "r = perform_loop x (phase x) (sr_inv x) a"
  have c: "config (fst r) = config x" unfolding r_def by (rule perform_loop_config)
  have s: "sr_inv (fst r) = sr_inv x" using c by (rule config_fields(1))
  have 1: "physicslfo_perform64 x a = ((fst r)\<lparr>phase := fst (snd r)\<rparr>, snd (snd r))"
    by (simp add: physicslfo_perform64_def r_def case_prod_beta)
  show ?thesis
    unfolding 1
    by (simp add: physicslfo_perform64_def perform_loop_append r_def [symmetric] s
        perform_loop_phase_field case_prod_beta)
qed

text \<open>The perform routine in terms of the loop.\<close>

lemma perform64_parts:
  "snd (physicslfo_perform64 x ins) = snd (snd (perform_loop x (phase x) (sr_inv x) ins))"
  "phase (fst (physicslfo_perform64 x ins)) = fst (snd (perform_loop x (phase x) (sr_inv x) ins))"
  "config (fst (physicslfo_perform64 x ins)) = config x"
proof -
  show "snd (physicslfo_perform64 x ins) = snd (snd (perform_loop x (phase x) (sr_inv x) ins))"
    by (simp add: physicslfo_perform64_def case_prod_beta)
  show "phase (fst (physicslfo_perform64 x ins)) = fst (snd (perform_loop x (phase x) (sr_inv x) ins))"
    by (simp add: physicslfo_perform64_def case_prod_beta)
  have "config (fst (physicslfo_perform64 x ins)) = config (fst (perform_loop x (phase x) (sr_inv x) ins))"
    by (simp add: physicslfo_perform64_def case_prod_beta config_def)
  then show "config (fst (physicslfo_perform64 x ins)) = config x"
    by (simp add: perform_loop_config)
qed

text \<open>
  Claim C3 (as amended). In looping mode, if the sample rate is at least 1000 Hz
  (\<open>0 \<le> sr_inv \<le> 1/1000\<close>, so that the clamped rate advances the phase by at most 1 per
  sample) and the phase is in [0,1) when the block starts, then for every sequence of inlet
  values the phase handed to the simulation function at each sample lies in [0,1), and
  the phase stored after the block is in [0,1) again, with mode and sample rate unchanged.
\<close>

theorem looping_phase_stays_in_unit_interval:
  assumes "looping_mode x \<noteq> 0" "0 \<le> sr_inv x" "sr_inv x \<le> 1 / 1000"
    and "0 \<le> phase x" "phase x < 1"
  shows "(\<forall>ob \<in> set (snd (physicslfo_perform64 x ins)). 0 \<le> o_phase ob \<and> o_phase ob < 1) \<and>
         0 \<le> phase (fst (physicslfo_perform64 x ins)) \<and>
         phase (fst (physicslfo_perform64 x ins)) < 1 \<and>
         looping_mode (fst (physicslfo_perform64 x ins)) = looping_mode x \<and>
         sr_inv (fst (physicslfo_perform64 x ins)) = sr_inv x"
proof -
  note r = perform_loop_looping_range [OF assms, of ins]
  note c = perform64_parts(3) [of x ins]
  show ?thesis
    using r config_fields(1) [OF c] config_fields(10) [OF c]
    by (simp add: perform64_parts(1,2))
qed

lemma first_sample_phase:
  "map o_phase (snd (physicslfo_perform64 x [i])) =
     [fst (snd (advance_phase x (phase x) (rate_of x i) (sr_inv x)))]"
  by (simp add: perform64_parts(1) case_prod_beta perform_sample_obs)

theorem looping_phase_stays_in_unit_interval_witness:
  "looping_mode near_wrap \<noteq> 0 \<and> 0 \<le> sr_inv near_wrap \<and> sr_inv near_wrap \<le> 1 / 1000 \<and>
   0 \<le> phase near_wrap \<and> phase near_wrap < 1 \<and>
   map o_phase (snd (physicslfo_perform64 near_wrap [(0, 0, 0, 0)])) = [0] \<and>
   0 \<le> phase (fst (physicslfo_perform64 near_wrap [(0, 0, 0, 0)])) \<and>
   phase (fst (physicslfo_perform64 near_wrap [(0, 0, 0, 0)])) < 1"
proof -
  have "map o_phase (snd (physicslfo_perform64 near_wrap [(0, 0, 0, 0)])) = [0]"
    by (simp add: first_sample_phase advance_phase_def Let_def rate_of_def CLAMP_def
        near_wrap_fields neg_wrap_nonneg)
  then show ?thesis
    using looping_phase_stays_in_unit_interval [of near_wrap "[(0, 0, 0, 0)]"]
    by (simp add: near_wrap_fields)
qed

lemma low_rate_first: "map o_phase (snd (physicslfo_perform64 low_rate [(0, 0, 0, 0)])) = [1]"
  by (simp add: first_sample_phase advance_phase_def Let_def rate_of_def CLAMP_def
      low_rate_fields neg_wrap_nonneg)

lemma after_envelope_fields:
  "phase after_envelope = 2" "sr_inv after_envelope = 1 / 48000"
  "freq_float after_envelope = 1000" "freq_has_signal after_envelope = 0"
  "looping_mode after_envelope = 1"
proof -
  define y where "y = fst (physicslfo_perform64 env_1k (replicate 96 (0, 0, 0, 0)))"
  have c: "config y = config env_1k" unfolding y_def by (rule perform64_parts(3))
  have "looping_mode env_1k \<noteq> 0 \<longrightarrow>
          0 + real (length (replicate 96 (0::real, 0::real, 0::real, 0::real)))
              * (CLAMP 1000 0 1000 * (1 / 48000)) < 1"
    by (simp add: env_1k_fields)
  then have "fst (snd (perform_loop env_1k 0 (1 / 48000) (replicate 96 (0, 0, 0, 0)))) =
          0 + real (length (replicate 96 (0::real, 0::real, 0::real, 0::real)))
              * (CLAMP 1000 0 1000 * (1 / 48000))"
    using held_rate_run [of env_1k 1000 "1 / 48000" 0 "replicate 96 (0, 0, 0, 0)"]
    by (simp add: env_1k_fields)
  then have p: "phase y = 2"
    by (simp add: y_def perform64_parts(2) env_1k_fields CLAMP_def)
  have a: "after_envelope = physicslfo_looping y 1" by (simp add: after_envelope_def y_def)
  show "phase after_envelope = 2" using p by (simp add: a physicslfo_looping_def Let_def)
  show "sr_inv after_envelope = 1 / 48000"
    using config_fields(1) [OF c] by (simp add: a physicslfo_looping_def Let_def env_1k_fields)
  show "freq_float after_envelope = 1000"
    using config_fields(2) [OF c] by (simp add: a physicslfo_looping_def Let_def env_1k_fields)
  show "freq_has_signal after_envelope = 0"
    using config_fields(6) [OF c] by (simp add: a physicslfo_looping_def Let_def env_1k_fields)
  show "looping_mode after_envelope = 1" by (simp add: a physicslfo_looping_def Let_def)
qed

text \<open>
  Claim C3 as stated fails: it has the phase in [0,1) for every host-supplied sample rate.
  At a sample rate of 500 Hz and a rate of 1000 Hz the first sample of a fresh instance
  is simulated at phase 1.0: the accumulated 2.0 is wrapped once. And at 48 kHz an
  instance that ran 96 samples at 1000 Hz in envelope mode (phase 2.0) and is switched
  back to looping mode simulates its next sample at phase 49/48.
\<close>

theorem looping_phase_not_wrapped_into_unit_interval:
  "map o_phase (snd (physicslfo_perform64 low_rate [(0, 0, 0, 0)])) = [1] \<and>
   map o_phase (snd (physicslfo_perform64 after_envelope [(0, 0, 0, 0)])) = [49 / 48]"
proof -
  have "map o_phase (snd (physicslfo_perform64 after_envelope [(0, 0, 0, 0)])) = [49 / 48]"
    by (simp add: first_sample_phase advance_phase_def Let_def rate_of_def CLAMP_def
      after_envelope_fields neg_wrap_nonneg)
  then show ?thesis using low_rate_first by simp
qed

lemma sorted_le_last: "sorted (a # xs) \<Longrightarrow> a \<le> last (a # xs)"
  by (cases xs rule: rev_cases) auto

text \<open>
  Claim C7. In envelope mode (\<open>looping_mode\<close> false), whatever \<open>envelope_active\<close> is and
  whatever the inlets carry, the phases handed to the simulation function over a block are
  non-decreasing, starting from the stored phase; no turn of the loop takes the wrap
  branch; the phase stored after the block is the last of them, so it is not below the
  phase before the block; and the instance is still in envelope mode with the same sample
  rate, so the same holds for the next block. The sample rate is positive
  (\<open>0 \<le> sr_inv\<close>).
\<close>

theorem envelope_phase_never_decreases:
  assumes "looping_mode x = 0" "0 \<le> sr_inv x"
  shows "sorted (phase x # map o_phase (snd (physicslfo_perform64 x ins))) \<and>
         phase (fst (physicslfo_perform64 x ins)) =
           last (phase x # map o_phase (snd (physicslfo_perform64 x ins))) \<and>
         phase x \<le> phase (fst (physicslfo_perform64 x ins)) \<and>
         (\<forall>ob \<in> set (snd (physicslfo_perform64 x ins)). \<not> o_wrapped ob) \<and>
         looping_mode (fst (physicslfo_perform64 x ins)) = 0 \<and>
         sr_inv (fst (physicslfo_perform64 x ins)) = sr_inv x"
proof -
  note r = perform_loop_envelope [OF assms, of "phase x" ins]
  note c = perform64_parts(3) [of x ins]
  have s: "sorted (phase x # map o_phase (snd (physicslfo_perform64 x ins)))"
    using r by (simp add: perform64_parts(1))
  have l: "phase (fst (physicslfo_perform64 x ins)) =
           last (phase x # map o_phase (snd (physicslfo_perform64 x ins)))"
    using r by (simp add: perform64_parts(1,2))
  have "phase x \<le> phase (fst (physicslfo_perform64 x ins))"
    unfolding l using s by (rule sorted_le_last)
  moreover have "\<forall>ob \<in> set (snd (physicslfo_perform64 x ins)). \<not> o_wrapped ob"
    using r by (simp add: perform64_parts(1))
  ultimately show ?thesis
    using s l config_fields(1) [OF c] config_fields(10) [OF c] assms(1) by simp
qed

lemma env_1k_run_phase:
  "phase (fst (physicslfo_perform64 env_1k (replicate 96 (0, 0, 0, 0)))) = 2"
proof -
  have "looping_mode env_1k \<noteq> 0 \<longrightarrow>
          0 + real (length (replicate 96 (0::real, 0::real, 0::real, 0::real)))
              * (CLAMP 1000 0 1000 * (1 / 48000)) < 1"
    by (simp add: env_1k_fields)
  then have "fst (snd (perform_loop env_1k 0 (1 / 48000) (replicate 96 (0, 0, 0, 0)))) =
          0 + real (length (replicate 96 (0::real, 0::real, 0::real, 0::real)))
              * (CLAMP 1000 0 1000 * (1 / 48000))"
    using held_rate_run [of env_1k 1000 "1 / 48000" 0 "replicate 96 (0, 0, 0, 0)"]
    by (simp add: env_1k_fields)
  then show ?thesis
    by (simp add: perform64_parts(2) env_1k_fields CLAMP_def)
qed

theorem envelope_phase_never_decreases_witness:
  "looping_mode env_1k = 0 \<and> 0 \<le> sr_inv env_1k \<and>
   sorted (phase env_1k # map o_phase (snd (physicslfo_perform64 env_1k (replicate 96 (0, 0, 0, 0))))) \<and>
   phase env_1k = 0 \<and>
   phase (fst (physicslfo_perform64 env_1k (replicate 96 (0, 0, 0, 0)))) = 2"
  using envelope_phase_never_decreases [of env_1k "replicate 96 (0, 0, 0, 0)"] env_1k_run_phase
  by (simp add: env_1k_fields)

section \<open>Scenario A: one second of looping\<close>

text \<open>Scenario A: the sample that completes the first second. The phase reaches exactly
  1.0, the wrap branch resets the instance, and the bounce function at phase 0 with full
  energy returns height 1 without touching the ground.\<close>

lemma scenario_A_wrap_sample:
  assumes "looping_mode x \<noteq> 0"
    and "freq_has_signal x = 0" "freq_float x = 1"
    and "type_has_signal x = 0" "type_float x = 0"
    and "physics_has_signal x = 0" "physics_float x = 0.5"
    and "damping_has_signal x = 0" "damping_float x = 0.1"
  shows "perform_sample x (47999 / 48000) (1 / 48000) i =
           ((reset_physics_state x)\<lparr>last_value := 1\<rparr>, 0,
            \<lparr>o_wrapped = True, o_phase = 0, o_value = 1\<rparr>)"
proof -
  have s: "simulate 0 (reset_physics_state x) 0 (1 / 2) (1 / 10) = (1, reset_physics_state x)"
    by (simp add: simulate_def simulate_bounce_def Let_def pow_c_def fmax_c_def CLAMP_def
        reset_physics_state_def)
  have a: "advance_phase x (47999 / 48000) 1 (1 / 48000) = (reset_physics_state x, 0, True)"
    using assms(1) by (simp add: advance_phase_def Let_def neg_wrap_nonneg)
  show ?thesis
    by (cases i) (simp add: perform_sample_def Let_def CLAMP_def trunc_long_small assms s a)
qed

text \<open>
  Claim C9. Starting from phase 0 in looping mode with type 0, shape 0.5, damping 0.1 and
  rate 1 Hz held, at a sample rate of 48000: over exactly 48000 samples exactly one wrap
  occurs, at the last sample and at none before; after it \<open>bounce_count\<close> is 0 (whatever
  it was before), energy is 1, spin phase is 0 and the phase is 0.
\<close>

theorem scenario_A_one_wrap_in_one_second:
  assumes "looping_mode x \<noteq> 0" "phase x = 0" "sr_inv x = 1 / 48000"
    and "freq_has_signal x = 0" "freq_float x = 1"
    and "type_has_signal x = 0" "type_float x = 0"
    and "physics_has_signal x = 0" "physics_float x = 0.5"
    and "damping_has_signal x = 0" "damping_float x = 0.1"
    and "length ins = 48000"
  shows "length (filter o_wrapped (snd (physicslfo_perform64 x ins))) = 1 \<and>
         o_wrapped (last (snd (physicslfo_perform64 x ins))) \<and>
         (\<forall>ob \<in> set (butlast (snd (physicslfo_perform64 x ins))). \<not> o_wrapped ob) \<and>
         length (snd (physicslfo_perform64 x ins)) = 48000 \<and>
         bounce_count (fst (physicslfo_perform64 x ins)) = 0 \<and>
         energy (fst (physicslfo_perform64 x ins)) = 1 \<and>
         spin_phase (fst (physicslfo_perform64 x ins)) = 0 \<and>
         phase (fst (physicslfo_perform64 x ins)) = 0"
proof -
  define a where "a = butlast ins"
  define i where "i = last ins"
  have ne: "ins \<noteq> []" using assms(12) by auto
  have ins: "ins = a @ [i]" unfolding a_def i_def using ne by simp
  have la: "length a = 47999" unfolding a_def using assms(12) by simp
  define r where "r = perform_loop x 0 (1 / 48000) a"
  define x1 where "x1 = fst r"
  have c: "config x1 = config x" unfolding x1_def r_def by (rule perform_loop_config)
  have "looping_mode x \<noteq> 0 \<longrightarrow> 0 + real (length a) * (CLAMP 1 0 1000 * (1 / 48000)) < 1"
    by (simp add: la CLAMP_def)
  with assms(4,5) have h: "fst (snd r) = 0 + real (length a) * (CLAMP 1 0 1000 * (1 / 48000)) \<and>
      (\<forall>ob \<in> set (snd (snd r)). \<not> o_wrapped ob)"
    unfolding r_def by (intro held_rate_run) simp_all
  then have ph: "fst (snd r) = 47999 / 48000" by (simp add: la CLAMP_def)
  have nw: "\<forall>ob \<in> set (snd (snd r)). \<not> o_wrapped ob" using h by simp
  have w: "perform_sample x1 (47999 / 48000) (1 / 48000) i =
           ((reset_physics_state x1)\<lparr>last_value := 1\<rparr>, 0,
            \<lparr>o_wrapped = True, o_phase = 0, o_value = 1\<rparr>)"
    using assms(1,4-11) config_fields [OF c]
    by (intro scenario_A_wrap_sample) simp_all
  have loop: "perform_loop x 0 (1 / 48000) ins =
       ((reset_physics_state x1)\<lparr>last_value := 1\<rparr>, 0,
        snd (snd r) @ [\<lparr>o_wrapped = True, o_phase = 0, o_value = 1\<rparr>])"
    unfolding ins perform_loop_append
    by (simp add: r_def [symmetric] x1_def [symmetric] ph w)
  have p: "physicslfo_perform64 x ins =
       ((reset_physics_state x1)\<lparr>last_value := 1, phase := 0\<rparr>,
        snd (snd r) @ [\<lparr>o_wrapped = True, o_phase = 0, o_value = 1\<rparr>])"
    by (simp add: physicslfo_perform64_def assms(2,3) loop)
  have f: "filter o_wrapped (snd (snd r)) = []" using nw by (simp add: filter_empty_conv)
  have len: "length (snd (snd r)) = 47999"
  proof -
    have "\<And>y ph srl. length (snd (snd (perform_loop y ph srl a))) = length a"
      by (induction a) (simp_all add: case_prod_beta)
    then show ?thesis by (simp add: r_def la)
  qed
  show ?thesis
    unfolding p using f nw len by (simp add: reset_physics_state_def)
qed

theorem scenario_A_one_wrap_in_one_second_witness:
  "looping_mode fresh \<noteq> 0 \<and> phase fresh = 0 \<and> sr_inv fresh = 1 / 48000 \<and>
   freq_has_signal fresh = 0 \<and> freq_float fresh = 1 \<and>
   type_has_signal fresh = 0 \<and> type_float fresh = 0 \<and>
   physics_has_signal fresh = 0 \<and> physics_float fresh = 0.5 \<and>
   damping_has_signal fresh = 0 \<and> damping_float fresh = 0.1 \<and>
   length (replicate 48000 (0::real, 0::real, 0::real, 0::real)) = 48000 \<and>
   length (filter o_wrapped (snd (physicslfo_perform64 fresh (replicate 48000 (0, 0, 0, 0))))) = 1 \<and>
   o_wrapped (last (snd (physicslfo_perform64 fresh (replicate 48000 (0, 0, 0, 0))))) \<and>
   bounce_count (fst (physicslfo_perform64 fresh (replicate 48000 (0, 0, 0, 0)))) = 0"
  using scenario_A_one_wrap_in_one_second [of fresh "replicate 48000 (0, 0, 0, 0)"]
  by (simp add: fresh_fields)

section \<open>Scenario B: the run\<close>

text \<open>The multi-bounce sample does not depend on the instance.\<close>

lemma multibounce_value_stateless:
  "fst (simulate_multibounce x t param damping) = fst (simulate_multibounce x' t param damping)"
  by (simp add: simulate_multibounce_def Let_def)

lemma perform_sample_multibounce:
  assumes "type_has_signal x = 0" "type_float x = 4"
    and "physics_has_signal x = 0" "damping_has_signal x = 0"
  shows "o_value (snd (snd (perform_sample x ph srl i))) =
           fst (simulate_multibounce x (fst (snd (advance_phase x ph (rate_of x i) srl)))
                  (CLAMP (physics_float x) 0 1) (CLAMP (damping_float x) 0 1))"
proof -
  have t: "trunc_long (CLAMP 4 0 5) = 4" by (simp add: CLAMP_def trunc_long_small)
  show ?thesis
    by (cases i)
       (simp add: perform_sample_def Let_def case_prod_beta assms t simulate_def rate_of_def
          multibounce_value_stateless [of "fst (advance_phase x ph _ srl)" _ _ _ x])
qed

text \<open>With type 4 and shape 0.5 held, every sample of a block is the multi-bounce function
  at the phase of that sample, for some damping in [0,1]: the damping inlet is clamped,
  whether it is held or carries a signal.\<close>

lemma perform_sample_multibounce_any:
  assumes "type_has_signal x = 0" "type_float x = 4"
    and "physics_has_signal x = 0" "physics_float x = 1 / 2"
  shows "\<exists>d. 0 \<le> d \<and> d \<le> 1 \<and>
           o_value (snd (snd (perform_sample x ph srl i))) =
             fst (simulate_multibounce y (o_phase (snd (snd (perform_sample x ph srl i)))) (1 / 2) d)"
proof -
  obtain fi ti pi di where i: "i = (fi, ti, pi, di)" by (cases i) auto
  define d where "d = CLAMP (if damping_has_signal x \<noteq> 0 then di else damping_float x) 0 1"
  have t: "trunc_long (CLAMP 4 0 5) = 4" by (simp add: CLAMP_def trunc_long_small)
  have p: "CLAMP (1 / 2 :: real) 0 1 = 1 / 2" by (simp add: CLAMP_def)
  have "o_value (snd (snd (perform_sample x ph srl i))) =
          fst (simulate_multibounce y (o_phase (snd (snd (perform_sample x ph srl i)))) (1 / 2) d)"
    by (simp add: i perform_sample_def Let_def case_prod_beta assms t p simulate_def d_def
        multibounce_value_stateless [of "fst (advance_phase x ph _ srl)" _ _ _ y])
  moreover have "0 \<le> d" "d \<le> 1" by (simp_all add: d_def CLAMP_unit)
  ultimately show ?thesis by blast
qed

lemma perform_loop_multibounce:
  assumes "type_has_signal x = 0" "type_float x = 4"
    and "physics_has_signal x = 0" "physics_float x = 1 / 2"
  shows "\<forall>ob \<in> set (snd (snd (perform_loop x ph srl ins))).
           \<exists>d. 0 \<le> d \<and> d \<le> 1 \<and>
             o_value ob = fst (simulate_multibounce y (o_phase ob) (1 / 2) d)"
  using assms
proof (induction ins arbitrary: x ph)
  case Nil
  show ?case by simp
next
  case (Cons i ins)
  define x1 where "x1 = fst (perform_sample x ph srl i)"
  define ph1 where "ph1 = fst (snd (perform_sample x ph srl i))"
  define ob where "ob = snd (snd (perform_sample x ph srl i))"
  have c: "config x1 = config x" unfolding x1_def by (rule perform_sample_config)
  have h: "type_has_signal x1 = 0" "type_float x1 = 4"
    "physics_has_signal x1 = 0" "physics_float x1 = 1 / 2"
    using config_fields [OF c] Cons.prems by simp_all
  note ih = Cons.IH [OF h, of ph1]
  have o: "\<exists>d. 0 \<le> d \<and> d \<le> 1 \<and> o_value ob = fst (simulate_multibounce y (o_phase ob) (1 / 2) d)"
    unfolding ob_def using Cons.prems by (rule perform_sample_multibounce_any)
  have eq: "perform_loop x ph srl (i # ins) =
          (fst (perform_loop x1 ph1 srl ins), fst (snd (perform_loop x1 ph1 srl ins)),
           ob # snd (snd (perform_loop x1 ph1 srl ins)))"
    by (simp add: case_prod_beta x1_def ph1_def ob_def)
  show ?case unfolding eq using ih o by simp
qed

lemma perform_loop_length: "length (snd (snd (perform_loop x ph srl ins))) = length ins"
  by (induction ins arbitrary: x ph) (simp_all add: case_prod_beta)

text \<open>
  Claim C2 (as amended). With type 4 and shape 0.5 (5 bounces per unit phase), at damping
  1.0 as at every other damping, in an envelope-mode run every sample simulated at a phase
  of 7.6 or more is exactly 0.0, and so is every later sample of the block, as long as the
  bounce index \<open>5 * phase\<close> fits the \<^verbatim>\<open>long\<close> it is cast to: once the run has reached
  phase 7.6 the output is exactly 0.0 and remains 0.0. Nothing is said of the phases
  before 7.6.
\<close>

theorem scenario_B_run_rests_from_phase_7_6:
  assumes "looping_mode x = 0" "0 \<le> sr_inv x"
    and "type_has_signal x = 0" "type_float x = 4"
    and "physics_has_signal x = 0" "physics_float x = 0.5"
  shows "\<forall>i j. i \<le> j \<and> j < length (snd (physicslfo_perform64 x ins)) \<and>
               7.6 \<le> o_phase (snd (physicslfo_perform64 x ins) ! i) \<and>
               o_phase (snd (physicslfo_perform64 x ins) ! j) * 5 < 2 ^ 63
           \<longrightarrow> o_value (snd (physicslfo_perform64 x ins) ! j) = 0.0"
proof (intro allI impI)
  fix i j
  define obs where "obs = snd (physicslfo_perform64 x ins)"
  assume "i \<le> j \<and> j < length (snd (physicslfo_perform64 x ins)) \<and>
          7.6 \<le> o_phase (snd (physicslfo_perform64 x ins) ! i) \<and>
          o_phase (snd (physicslfo_perform64 x ins) ! j) * 5 < 2 ^ 63"
  then have ij: "i \<le> j" "j < length obs" and lo: "7.6 \<le> o_phase (obs ! i)"
    and hi: "o_phase (obs ! j) * 5 < 2 ^ 63"
    by (simp_all add: obs_def)
  have o: "obs = snd (snd (perform_loop x (phase x) (sr_inv x) ins))"
    by (simp add: obs_def perform64_parts(1))
  have "sorted (phase x # map o_phase obs)"
    unfolding o using perform_loop_envelope [OF assms(1,2), of "phase x" ins] by simp
  then have "sorted (map o_phase obs)" by simp
  then have "map o_phase obs ! i \<le> map o_phase obs ! j"
    using ij by (intro sorted_nth_mono) simp_all
  then have "o_phase (obs ! i) \<le> o_phase (obs ! j)" using ij by simp
  then have lo': "7.6 \<le> o_phase (obs ! j)" using lo by simp
  have pf: "physics_float x = 1 / 2" by (simp add: assms(6))
  have "obs ! j \<in> set obs" using ij(2) by simp
  then obtain d where d: "0 \<le> d" "d \<le> 1"
    and v: "o_value (obs ! j) = fst (simulate_multibounce x (o_phase (obs ! j)) (1 / 2) d)"
    using perform_loop_multibounce
      [OF assms(3,4,5) pf, where y = x and ph = "phase x" and srl = "sr_inv x" and ins = ins]
    unfolding o by blast
  have "fst (simulate_multibounce x (o_phase (obs ! j)) (1 / 2) d) = 0"
    using d lo' hi by (rule rest_from_phase_7_6)
  then show "o_value (snd (physicslfo_perform64 x ins) ! j) = 0.0"
    using v by (simp add: obs_def)
qed

theorem scenario_B_run_rests_from_phase_7_6_witness:
  "looping_mode scenario_B = 0 \<and> 0 \<le> sr_inv scenario_B \<and>
   type_has_signal scenario_B = 0 \<and> type_float scenario_B = 4 \<and>
   physics_has_signal scenario_B = 0 \<and> physics_float scenario_B = 0.5 \<and>
   damping_float scenario_B = 1 \<and>
   length (snd (physicslfo_perform64 scenario_B (replicate 364800 (0, 0, 0, 0)))) = 364800 \<and>
   o_phase (snd (physicslfo_perform64 scenario_B (replicate 364800 (0, 0, 0, 0))) ! 364799) = 7.6 \<and>
   o_value (snd (physicslfo_perform64 scenario_B (replicate 364800 (0, 0, 0, 0))) ! 364799) = 0.0"
proof -
  define ins :: "(real \<times> real \<times> real \<times> real) list" where "ins = replicate 364800 (0, 0, 0, 0)"
  define obs where "obs = snd (physicslfo_perform64 scenario_B ins)"
  have o: "obs = snd (snd (perform_loop scenario_B 0 (1 / 48000) ins))"
    by (simp add: obs_def perform64_parts(1) scenario_B_fields)
  have len: "length obs = 364800" unfolding o by (simp add: perform_loop_length ins_def)
  then have ne: "obs \<noteq> []" by auto
  have e: "looping_mode scenario_B = 0" "0 \<le> (1 / 48000 :: real)"
    by (simp_all add: scenario_B_fields)
  have "looping_mode scenario_B \<noteq> 0 \<longrightarrow>
          0 + real (length ins) * (CLAMP 1 0 1000 * (1 / 48000)) < 1"
    by (simp add: scenario_B_fields)
  then have "fst (snd (perform_loop scenario_B 0 (1 / 48000) ins)) =
          0 + real (length ins) * (CLAMP 1 0 1000 * (1 / 48000))"
    using held_rate_run [of scenario_B 1 "1 / 48000" 0 ins]
    by (simp add: scenario_B_fields)
  then have fin: "fst (snd (perform_loop scenario_B 0 (1 / 48000) ins)) = 38 / 5"
    by (simp add: CLAMP_def ins_def)
  have "fst (snd (perform_loop scenario_B 0 (1 / 48000) ins)) = last (0 # map o_phase obs)"
    unfolding o using perform_loop_envelope [OF e, of 0 ins] by simp
  then have "last (map o_phase obs) = 38 / 5" using fin ne by simp
  then have "o_phase (last obs) = 38 / 5" using ne by (simp add: last_map)
  moreover have "last obs = obs ! 364799" using ne len by (simp add: last_conv_nth)
  ultimately have p: "o_phase (obs ! 364799) = 38 / 5" by simp
  have pre: "(364799::nat) \<le> 364799 \<and> 364799 < length obs \<and> 7.6 \<le> o_phase (obs ! 364799) \<and>
        o_phase (obs ! 364799) * 5 < 2 ^ 63"
    by (simp add: len p)
  have "\<forall>i j. i \<le> j \<and> j < length obs \<and> 7.6 \<le> o_phase (obs ! i) \<and>
               o_phase (obs ! j) * 5 < 2 ^ 63
           \<longrightarrow> o_value (obs ! j) = 0.0"
    unfolding obs_def
    by (rule scenario_B_run_rests_from_phase_7_6) (simp_all add: scenario_B_fields)
  then have "o_value (obs ! 364799) = 0.0" using pre by blast
  then show ?thesis
    using len p by (simp add: obs_def ins_def scenario_B_fields)
qed

text \<open>
  Claim C2 as stated fails: it has the output at exactly 0.0 from some phase below 1.0 on,
  for all later phases of the run. In the run of Scenario B (type 4, shape 0.5, damping
  1.0, triggered once in envelope mode, 1 Hz at 48 kHz) sample 52800 is simulated at phase
  1.1 and is \<open>0.9 ^ 5 = 0.59049\<close>.
\<close>

theorem scenario_B_run_not_at_rest_after_phase_1:
  "o_phase (last (snd (physicslfo_perform64 scenario_B (replicate 52800 (0, 0, 0, 0))))) = 11 / 10 \<and>
   o_value (last (snd (physicslfo_perform64 scenario_B (replicate 52800 (0, 0, 0, 0))))) = 59049 / 100000"
proof -
  define i :: "real \<times> real \<times> real \<times> real" where "i = (0, 0, 0, 0)"
  define r where "r = perform_loop scenario_B 0 (1 / 48000) (replicate 52799 i)"
  define x1 where "x1 = fst r"
  define ob where "ob = snd (snd (perform_sample x1 (52799 / 48000) (1 / 48000) i))"
  have c: "config x1 = config scenario_B" unfolding x1_def r_def by (rule perform_loop_config)
  have "looping_mode scenario_B \<noteq> 0 \<longrightarrow>
          0 + real (length (replicate 52799 i)) * (CLAMP 1 0 1000 * (1 / 48000)) < 1"
    by (simp add: scenario_B_fields)
  then have "fst (snd r) = 0 + real (length (replicate 52799 i)) * (CLAMP 1 0 1000 * (1 / 48000))"
    unfolding r_def
    using held_rate_run [of scenario_B 1 "1 / 48000" 0 "replicate 52799 i"]
    by (simp add: scenario_B_fields)
  then have ph: "fst (snd r) = 52799 / 48000" by (simp add: CLAMP_def)
  have "replicate (52799 + 1) i = replicate 52799 i @ replicate 1 i"
    by (rule replicate_add)
  then have sp: "replicate 52800 i = replicate 52799 i @ [i]" by simp
  have obs: "snd (physicslfo_perform64 scenario_B (replicate 52800 i)) = snd (snd r) @ [ob]"
    unfolding sp perform64_parts(1) perform_loop_append
    by (simp add: scenario_B_fields r_def [symmetric] x1_def [symmetric] ph ob_def case_prod_beta)
  have l: "looping_mode x1 = 0" using config_fields(10) [OF c] by (simp add: scenario_B_fields)
  have rt: "rate_of x1 i = 1"
    using config_fields(2) [OF c] config_fields(6) [OF c]
    by (simp add: rate_of_def scenario_B_fields CLAMP_def)
  have a: "fst (snd (advance_phase x1 (52799 / 48000) (rate_of x1 i) (1 / 48000))) = 11 / 10"
    using advance_phase_envelope(1) [OF l, of "52799 / 48000" "rate_of x1 i" "1 / 48000"]
    by (simp add: rt)
  have p: "o_phase ob = 11 / 10" unfolding ob_def perform_sample_obs(2) by (rule a)
  have "o_value ob = fst (simulate_multibounce x1 (11 / 10)
                            (CLAMP (physics_float x1) 0 1) (CLAMP (damping_float x1) 0 1))"
    unfolding ob_def a [symmetric]
    using config_fields [OF c]
    by (intro perform_sample_multibounce) (simp_all add: scenario_B_fields)
  also have "\<dots> = fst (simulate_multibounce x1 (11 / 10) (1 / 2) 1)"
    by (simp add: config_fields(4,5) [OF c] scenario_B_fields CLAMP_def)
  also have "\<dots> = 59049 / 100000"
    by (simp add: simulate_multibounce_def bounce_amplitude_def Let_def fmod_c_def
      trunc_long_def trunc_toward_zero_def LONG_MIN_def LONG_MAX_def pow_c_def power_divide)
  finally have v: "o_value ob = 59049 / 100000" .
  show ?thesis using p v by (simp add: i_def [symmetric] obs)
qed

end
